theory Spec2Isabelle
  imports Complex_Main
begin

section \<open>Numbers and vectors\<close>

text \<open>
  The program is TypeScript; its numbers are IEEE doubles. Except in its last part,
  where the rounding of the integration step is written out, this development reads
  them as real numbers: every value held in the state is finite and arithmetic is
  exact, so rounding, overflow, signed zeros, NaN and the infinities are outside the
  model; the inequalities proved below about concrete ticks hold with margins far above
  the spacing of the doubles involved. With
  exact arithmetic on finite values the only way \<open>updatePhysics\<close> can leave the reals
  is the division by the satellite's mass; that case is a branch of the model
  (\<open>NonFinite\<close>) instead of HOL's \<open>x / 0 = 0\<close>.

  \<open>THREE.Vector3\<close> comes from the three.js library. The methods the physics engine
  calls are embedded below with the library's meaning: \<open>length\<close> (here
  \<open>vlength\<close>) is the Euclidean norm, \<open>divideScalar s\<close> multiplies by \<open>1 / s\<close>,
  \<open>normalize\<close> (here \<open>normalize_vec\<close>) divides by \<open>length() || 1\<close>. The methods
  mutate the receiver; every call site of the engine works on a fresh clone or on a
  vector that is not read again, so the embedding returns the new vector.
\<close>

datatype Vector3 = Vector3 (vx: real) (vy: real) (vz: real)

definition vlength :: "Vector3 \<Rightarrow> real" where
  "vlength v = sqrt (vx v * vx v + vy v * vy v + vz v * vz v)"

definition multiplyScalar :: "Vector3 \<Rightarrow> real \<Rightarrow> Vector3" where
  "multiplyScalar v s = Vector3 (vx v * s) (vy v * s) (vz v * s)"

definition divideScalar :: "Vector3 \<Rightarrow> real \<Rightarrow> Vector3" where
  "divideScalar v s = multiplyScalar v (1 / s)"

definition add :: "Vector3 \<Rightarrow> Vector3 \<Rightarrow> Vector3" where
  "add v w = Vector3 (vx v + vx w) (vy v + vy w) (vz v + vz w)"

definition normalize_vec :: "Vector3 \<Rightarrow> Vector3" where
  "normalize_vec v = divideScalar v (if vlength v = 0 then 1 else vlength v)"

definition distanceTo :: "Vector3 \<Rightarrow> Vector3 \<Rightarrow> real" where
  "distanceTo v w =
     sqrt ((vx v - vx w) * (vx v - vx w) + (vy v - vy w) * (vy v - vy w)
           + (vz v - vz w) * (vz v - vz w))"

section \<open>Constants of the simulation (simulation.ts, scene-setup.ts)\<close>

definition EARTH_RADIUS :: real where
  "EARTH_RADIUS = 6371000"

definition EARTH_MASS :: real where
  "EARTH_MASS = 5972 * 10 ^ 21"

definition G :: real where
  "G = 66743 / 10 ^ 15"

definition SCALE_FACTOR :: real where
  "SCALE_FACTOR = 1 / 10 ^ 5"

definition maxTrailLength :: nat where
  "maxTrailLength = 1000"

section \<open>State\<close>

text \<open>
  One entry of \<open>PhysicsEngine.satellites\<close>. The fields the TypeScript type marks
  optional are options here; the per-satellite \<open>timeScale\<close> field is named
  \<open>satTimeScale\<close>, the name \<open>timeScale\<close> being kept for the simulation's.
\<close>

record SatelliteState =
  position :: Vector3
  velocity :: Vector3
  mass :: real
  dragCoefficient :: "real option"
  area :: "real option"
  initialDensity :: "real option"
  densityScaleHeight :: "real option"
  airEnabled :: "bool option"
  satTimeScale :: "real option"

text \<open>
  The part of the program's state that \<open>updatePhysics\<close> reads or writes:
  \<open>physicsEngine.satellites\<close>, \<open>sceneSetup.trails\<close>, the positions of the meshes
  in \<open>sceneSetup.satellites\<close>, \<open>simulation.timeScale\<close>, and the text of the
  document's element with id \<open>status\<close> (\<open>None\<close> when the page has no such
  element).
\<close>

record Simulation =
  satellites :: "SatelliteState list"
  trails :: "Vector3 list list"
  meshes :: "Vector3 list"
  timeScale :: real
  statusElement :: "string option"

text \<open>The argument of \<open>addSatelliteState\<close>; an absent argument is \<open>no_options\<close>.\<close>

record SatelliteOptions =
  opt_position :: "Vector3 option"
  opt_velocity :: "Vector3 option"
  opt_mass :: "real option"
  opt_dragCoefficient :: "real option"
  opt_area :: "real option"
  opt_initialDensity :: "real option"
  opt_densityScaleHeight :: "real option"
  opt_airEnabled :: "bool option"
  opt_timeScale :: "real option"

definition no_options :: SatelliteOptions where
  "no_options = \<lparr>opt_position = None, opt_velocity = None, opt_mass = None,
     opt_dragCoefficient = None, opt_area = None, opt_initialDensity = None,
     opt_densityScaleHeight = None, opt_airEnabled = None, opt_timeScale = None\<rparr>"

datatype fault = NonFinite

section \<open>calculateAtmosphericDensity (physics-engine.ts, lines 36-89)\<close>

text \<open>
  The cache maps a bucket (the altitude rounded to the nearest 100 m, an integer) to the
  density stored for it. \<open>Math.round\<close> rounds halves upwards, as \<open>round\<close> does
  on the reals. \<open>Math.pow\<close> is \<open>powr\<close>: its base is positive wherever the
  branch that calls it is taken.
\<close>

definition cacheKey :: "real \<Rightarrow> int" where
  "cacheKey altitude = round (altitude / 100) * 100"

definition bandDensity :: "real \<Rightarrow> real" where
  "bandDensity altitude =
     (let h = max 0 altitude in
      if h \<ge> 1000000 then 0
      else if h < 11000 then 1.225 * ((1 - (0.0065 * h) / 288.15) powr 4.256)
      else if h < 20000 then 0.3639 * exp (- (h - 11000) / 6341.6)
      else if h < 32000 then 0.088 * exp (- (h - 20000) / 7360.0)
      else if h < 47000 then 0.0132 * exp (- (h - 32000) / 8000.0)
      else if h < 51000 then 0.00143 * exp (- (h - 47000) / 7500.0)
      else if h < 71000 then 0.000086 * exp (- (h - 51000) / 10000.0)
      else if h < 100000 then 0.0000032 * exp (- (h - 71000) / 15000.0)
      else if h < 200000 then (1 / 10 ^ 9) * exp (- (h - 100000) / 25000.0)
      else if h < 500000 then (1 / 10 ^ 11) * exp (- (h - 200000) / 100000.0)
      else if h < 1000000 then (1 / 10 ^ 13) * exp (- (h - 500000) / 500000.0)
      else 0)"

definition calculateAtmosphericDensity ::
  "real \<Rightarrow> (int \<rightharpoonup> real) \<Rightarrow> real \<times> (int \<rightharpoonup> real)" where
  "calculateAtmosphericDensity altitude cache =
     (case cache (cacheKey altitude) of
        Some rho \<Rightarrow> (rho, cache)
      | None \<Rightarrow>
          (let rho = bandDensity altitude in (rho, cache(cacheKey altitude \<mapsto> rho))))"

text \<open>
  The table of section 4.1 of the specification, read in its own words: the bands in
  the listed order, the first matching band giving the value. Each row is a pair of a
  membership test for the half-open band and the band's formula.
\<close>

definition density_bands :: "((real \<Rightarrow> bool) \<times> (real \<Rightarrow> real)) list" where
  "density_bands =
     [(\<lambda>h. 0 \<le> h \<and> h < 11000, \<lambda>h. 1.225 * ((1 - 0.0065 * h / 288.15) powr 4.256)),
      (\<lambda>h. 11000 \<le> h \<and> h < 20000, \<lambda>h. 0.3639 * exp (- (h - 11000) / 6341.6)),
      (\<lambda>h. 20000 \<le> h \<and> h < 32000, \<lambda>h. 0.088 * exp (- (h - 20000) / 7360.0)),
      (\<lambda>h. 32000 \<le> h \<and> h < 47000, \<lambda>h. 0.0132 * exp (- (h - 32000) / 8000.0)),
      (\<lambda>h. 47000 \<le> h \<and> h < 51000, \<lambda>h. 0.00143 * exp (- (h - 47000) / 7500.0)),
      (\<lambda>h. 51000 \<le> h \<and> h < 71000, \<lambda>h. 0.000086 * exp (- (h - 51000) / 10000.0)),
      (\<lambda>h. 71000 \<le> h \<and> h < 100000, \<lambda>h. 0.0000032 * exp (- (h - 71000) / 15000.0)),
      (\<lambda>h. 100000 \<le> h \<and> h < 200000, \<lambda>h. (1 / 10 ^ 9) * exp (- (h - 100000) / 25000.0)),
      (\<lambda>h. 200000 \<le> h \<and> h < 500000, \<lambda>h. (1 / 10 ^ 11) * exp (- (h - 200000) / 100000.0)),
      (\<lambda>h. 500000 \<le> h \<and> h < 1000000, \<lambda>h. (1 / 10 ^ 13) * exp (- (h - 500000) / 500000.0)),
      (\<lambda>h. 1000000 \<le> h, \<lambda>h. 0)]"

fun first_match :: "((real \<Rightarrow> bool) \<times> (real \<Rightarrow> real)) list \<Rightarrow> real \<Rightarrow> real option" where
  "first_match [] h = None"
| "first_match ((inBand, formula) # bands) h =
     (if inBand h then Some (formula h) else first_match bands h)"

definition density_spec :: "real \<Rightarrow> real option" where
  "density_spec altitude = first_match density_bands (max 0 altitude)"

section \<open>addSatelliteState (physics-engine.ts, lines 91-128)\<close>

text \<open>
  \<open>a || b\<close> takes \<open>b\<close> when \<open>a\<close> is falsy: for a number, when it is absent or
  zero (NaN is outside the model); for a vector object, only when it is absent.
  \<open>a ?? b\<close> takes \<open>b\<close> only when \<open>a\<close> is absent.
\<close>

definition or_default :: "real option \<Rightarrow> real \<Rightarrow> real" where
  "or_default a b = (case a of None \<Rightarrow> b | Some n \<Rightarrow> if n = 0 then b else n)"

definition nullish :: "'a option \<Rightarrow> 'a \<Rightarrow> 'a" where
  "nullish a b = (case a of None \<Rightarrow> b | Some n \<Rightarrow> n)"

definition addSatelliteState :: "SatelliteOptions \<Rightarrow> Simulation \<Rightarrow> Simulation" where
  "addSatelliteState options s =
     (let height = or_default (map_option vlength (opt_position options))
                     (EARTH_RADIUS + 400000);
          position' = nullish (opt_position options) (Vector3 height 0 0);
          velocity' = nullish (opt_velocity options) (Vector3 0 7800 0);
          mass' = or_default (opt_mass options) 1000;
          dragCoefficient' = nullish (opt_dragCoefficient options) 2.2;
          area' = nullish (opt_area options) 4;
          initialDensity' = nullish (opt_initialDensity options) 1.225;
          densityScaleHeight' = nullish (opt_densityScaleHeight options) 8500;
          airEnabled' = nullish (opt_airEnabled options) True;
          timeScale' = nullish (opt_timeScale options) 1
      in s\<lparr>satellites := satellites s @
           [\<lparr>position = position', velocity = velocity', mass = mass',
             dragCoefficient = Some dragCoefficient', area = Some area',
             initialDensity = Some initialDensity',
             densityScaleHeight = Some densityScaleHeight',
             airEnabled = Some airEnabled', satTimeScale = Some timeScale'\<rparr>]\<rparr>)"

section \<open>updatePhysics (physics-engine.ts, lines 139-230)\<close>

text \<open>Lines 160-163: the gravitational force on the satellite.\<close>

definition gravityForce :: "SatelliteState \<Rightarrow> Vector3" where
  "gravityForce sat =
     (let distance = vlength (position sat);
          forceMagnitude = (G * EARTH_MASS * mass sat) / (distance * distance);
          forceDirection = multiplyScalar (normalize_vec (position sat)) (- 1)
      in multiplyScalar forceDirection forceMagnitude)"

text \<open>Lines 165-183: the drag force. The test reads the altitude and the speed only.\<close>

definition dragForce :: "SatelliteState \<Rightarrow> Vector3" where
  "dragForce sat =
     (let distance = vlength (position sat);
          altitude = distance - EARTH_RADIUS
      in if altitude < 500000 \<and> vlength (velocity sat) > 1 then
           (let atmosphereDensity = 1.225 * exp (- altitude / 8500);
                speed = vlength (velocity sat);
                dragCoeff = nullish (dragCoefficient sat) 2.2;
                area' = nullish (area sat) 4;
                dragMagnitude = 0.5 * atmosphereDensity * speed * speed * dragCoeff * area';
                velocityDirection = normalize_vec (velocity sat)
            in multiplyScalar velocityDirection (- dragMagnitude))
         else Vector3 0 0 0)"

text \<open>Lines 185-189: the forces are added and divided by the satellite's mass.\<close>

definition acceleration :: "SatelliteState \<Rightarrow> Vector3" where
  "acceleration sat =
     (let totalForce = add (gravityForce sat) (dragForce sat)
      in divideScalar totalForce (mass sat))"

text \<open>Lines 195-206: the trail of the first satellite.\<close>

definition recordTrail :: "Vector3 list \<Rightarrow> Vector3 \<Rightarrow> Vector3 list" where
  "recordTrail trail p =
     (if trail = [] \<or> distanceTo p (last trail) > 1000 then
        (let pushed = trail @ [p]
         in if length pushed > maxTrailLength then tl pushed else pushed)
      else trail)"

text \<open>
  The whole step. The calls that end it, \<open>sceneSetup.updateTrails()\<close> and
  \<open>updateInfo()\<close>, rebuild line geometry and write telemetry text; they read the state
  modelled here and write none of it.
\<close>

definition updatePhysics :: "real \<Rightarrow> Simulation \<Rightarrow> fault + Simulation" where
  "updatePhysics deltaTime s =
     (case satellites s of
        [] \<Rightarrow> Inr s
      | sat # others \<Rightarrow>
          (let dt = deltaTime * timeScale s;
               distance = vlength (position sat)
           in if distance \<le> EARTH_RADIUS + 50000 then
                Inr (s\<lparr>statusElement := map_option (\<lambda>_. ''Crashed!'') (statusElement s)\<rparr>)
              else if mass sat = 0 then Inl NonFinite
              else
                (let velocity' = add (velocity sat) (multiplyScalar (acceleration sat) dt);
                     position' = add (position sat) (multiplyScalar velocity' dt);
                     trails' = (if trails s = [] then [[]] else trails s);
                     trail = recordTrail (hd trails') position';
                     meshes' = (case meshes s of [] \<Rightarrow> []
                                | m # ms \<Rightarrow> multiplyScalar position' SCALE_FACTOR # ms);
                     escapeVelocity = sqrt ((2 * G * EARTH_MASS) / distance);
                     currentSpeed = vlength velocity';
                     status = (if currentSpeed > escapeVelocity then ''Escaping!''
                               else ''Orbiting'')
                 in Inr (s\<lparr>satellites := sat\<lparr>position := position', velocity := velocity'\<rparr> # others,
                          trails := trail # tl trails',
                          meshes := meshes',
                          statusElement := map_option (\<lambda>_. status) (statusElement s)\<rparr>))))"

text \<open>
  \<open>updatePhysics\<close> stays within the reals exactly when it returns before the
  division by the mass or the mass is not zero.
\<close>

definition stays_finite :: "Simulation \<Rightarrow> bool" where
  "stays_finite s =
     (case satellites s of
        [] \<Rightarrow> True
      | sat # others \<Rightarrow> vlength (position sat) \<le> EARTH_RADIUS + 50000 \<or> mass sat \<noteq> 0)"

text \<open>
  The specification's \<open>tick(dtSeconds, timeScale)\<close>: the render loop sets
  \<open>simulation.timeScale\<close> from the controls and calls \<open>updatePhysics\<close>. A run is a
  list of such ticks.
\<close>

definition tick :: "real \<Rightarrow> real \<Rightarrow> Simulation \<Rightarrow> fault + Simulation" where
  "tick dtSeconds scale s = updatePhysics dtSeconds (s\<lparr>timeScale := scale\<rparr>)"

fun ticks :: "(real \<times> real) list \<Rightarrow> Simulation \<Rightarrow> fault + Simulation" where
  "ticks [] s = Inr s"
| "ticks ((dtSeconds, scale) # rest) s =
     (case tick dtSeconds scale s of Inl e \<Rightarrow> Inl e | Inr s' \<Rightarrow> ticks rest s')"

text \<open>The bound the trail sampler keeps: no trail is longer than \<open>maxTrailLength\<close>.\<close>

definition trails_bounded :: "Simulation \<Rightarrow> bool" where
  "trails_bounded s = list_all (\<lambda>trail. length trail \<le> maxTrailLength) (trails s)"

section \<open>Concrete states\<close>

text \<open>
  The state after \<open>reset()\<close> on a page that has a status element, and the satellite
  that \<open>addSatelliteState()\<close> stores when it is called without options: 400 km above
  the surface on the x axis, moving at 7800 m/s along y.
\<close>

definition initial_simulation :: Simulation where
  "initial_simulation =
     \<lparr>satellites = [], trails = [], meshes = [], timeScale = 1, statusElement = Some ''''\<rparr>"

definition default_satellite :: SatelliteState where
  "default_satellite =
     \<lparr>position = Vector3 6771000 0 0, velocity = Vector3 0 7800 0, mass = 1000,
      dragCoefficient = Some 2.2, area = Some 4, initialDensity = Some 1.225,
      densityScaleHeight = Some 8500, airEnabled = Some True, satTimeScale = Some 1\<rparr>"

text \<open>Two registered satellites, the second one lighter and on the y axis.\<close>

definition orbit_state :: Simulation where
  "orbit_state =
     \<lparr>satellites = [default_satellite,
                     default_satellite\<lparr>position := Vector3 0 7000000 0, mass := 500\<rparr>],
      trails = [[], []], meshes = [Vector3 67.71 0 0, Vector3 0 70 0], timeScale = 1,
      statusElement = Some ''Orbiting''\<rparr>"

text \<open>A satellite 29 km above the surface, inside the 50 km crash margin.\<close>

definition crashed_state :: Simulation where
  "crashed_state =
     \<lparr>satellites = [default_satellite\<lparr>position := Vector3 6400000 0 0\<rparr>],
      trails = [[]], meshes = [Vector3 64 0 0], timeScale = 1,
      statusElement = Some ''Orbiting''\<rparr>"

text \<open>
  A satellite 629 km up, moving radially outwards at 10800 m/s, with the simulation
  speed at its 1000x preset.
\<close>

definition high_speed_state :: Simulation where
  "high_speed_state =
     \<lparr>satellites = [default_satellite\<lparr>position := Vector3 7000000 0 0,
                                      velocity := Vector3 10800 0 0\<rparr>],
      trails = [[]], meshes = [Vector3 70 0 0], timeScale = 1000,
      statusElement = Some ''Orbiting''\<rparr>"

text \<open>
  A satellite registered 100 km above the surface with \<open>airEnabled: false\<close>; the other
  options are left to their defaults.
\<close>

definition air_disabled_state :: Simulation where
  "air_disabled_state =
     addSatelliteState
       (no_options\<lparr>opt_position := Some (Vector3 6471000 0 0), opt_airEnabled := Some False\<rparr>)
       initial_simulation"

text \<open>
  The state \<open>high_speed_state\<close> with its first trail at the cap: 1000 samples, the
  last of them 100 km behind the satellite.
\<close>

definition capped_state :: Simulation where
  "capped_state = high_speed_state\<lparr>trails := [replicate 1000 (Vector3 6900000 0 0)]\<rparr>"

text \<open>The default satellite moved to an altitude of exactly 500 km, where drag is off.\<close>

definition boundary_satellite :: SatelliteState where
  "boundary_satellite = default_satellite\<lparr>position := Vector3 6871000 0 0\<rparr>"

section \<open>The integration step in binary64 arithmetic (physics-engine.ts, lines 160-193)\<close>

text \<open>
  Whether two results of the program are the same number is decided by the rounding of
  its doubles, which the real-number reading above leaves out. For that question the
  lines that compute the forces and integrate are embedded a second time, with the
  rounding of every operation written out.

  \<open>fl\<close> rounds a real number to the nearest number with a 53-bit significand, a tie
  going to the even significand, as IEEE 754 binary64 arithmetic does on its normal
  range; the exponent is not bounded, so overflow to Infinity and gradual underflow
  stay outside the model. A numeric literal of the source is the rounding of its decimal
  value. \<open>Math.sqrt\<close> is the correctly rounded square root. \<open>Math.exp\<close> is left to the
  implementation by the language, so it is a parameter, \<open>exp64\<close>. The values held in
  a \<open>SatelliteState\<close> are read as doubles here.
\<close>

definition round_even :: "real \<Rightarrow> int" where
  "round_even q =
     (let f = \<lfloor>q\<rfloor>
      in if q - of_int f < 1 / 2 then f
         else if 1 / 2 < q - of_int f then f + 1
         else if even f then f else f + 1)"

definition fl :: "real \<Rightarrow> real" where
  "fl x =
     (if x = 0 then 0
      else (let e = \<lfloor>log 2 \<bar>x\<bar>\<rfloor> - 52
            in of_int (round_even (x / 2 powi e)) * 2 powi e))"

definition G64 :: real where
  "G64 = fl (66743 / 10 ^ 15)"

definition EARTH_MASS64 :: real where
  "EARTH_MASS64 = fl (5972 * 10 ^ 21)"

definition length64 :: "Vector3 \<Rightarrow> real" where
  "length64 v = fl (sqrt (fl (fl (fl (vx v * vx v) + fl (vy v * vy v)) + fl (vz v * vz v))))"

definition multiplyScalar64 :: "Vector3 \<Rightarrow> real \<Rightarrow> Vector3" where
  "multiplyScalar64 v s = Vector3 (fl (vx v * s)) (fl (vy v * s)) (fl (vz v * s))"

definition divideScalar64 :: "Vector3 \<Rightarrow> real \<Rightarrow> Vector3" where
  "divideScalar64 v s = multiplyScalar64 v (fl (1 / s))"

definition add64 :: "Vector3 \<Rightarrow> Vector3 \<Rightarrow> Vector3" where
  "add64 v w = Vector3 (fl (vx v + vx w)) (fl (vy v + vy w)) (fl (vz v + vz w))"

definition normalize64 :: "Vector3 \<Rightarrow> Vector3" where
  "normalize64 v = divideScalar64 v (if length64 v = 0 then 1 else length64 v)"

definition gravityForce64 :: "SatelliteState \<Rightarrow> Vector3" where
  "gravityForce64 sat =
     (let distance = length64 (position sat);
          forceMagnitude =
            fl (fl (fl (G64 * EARTH_MASS64) * mass sat) / fl (distance * distance));
          forceDirection = multiplyScalar64 (normalize64 (position sat)) (- 1)
      in multiplyScalar64 forceDirection forceMagnitude)"

definition dragForce64 :: "(real \<Rightarrow> real) \<Rightarrow> SatelliteState \<Rightarrow> Vector3" where
  "dragForce64 exp64 sat =
     (let distance = length64 (position sat);
          altitude = fl (distance - EARTH_RADIUS)
      in if altitude < 500000 \<and> length64 (velocity sat) > 1 then
           (let atmosphereDensity = fl (fl 1.225 * exp64 (fl (- altitude / 8500)));
                speed = length64 (velocity sat);
                dragCoeff = nullish (dragCoefficient sat) (fl 2.2);
                area' = nullish (area sat) 4;
                dragMagnitude =
                  fl (fl (fl (fl (fl (0.5 * atmosphereDensity) * speed) * speed) * dragCoeff)
                      * area');
                velocityDirection = normalize64 (velocity sat)
            in multiplyScalar64 velocityDirection (- dragMagnitude))
         else Vector3 0 0 0)"

definition acceleration64 :: "(real \<Rightarrow> real) \<Rightarrow> SatelliteState \<Rightarrow> Vector3" where
  "acceleration64 exp64 sat =
     (let totalForce = add64 (gravityForce64 sat) (dragForce64 exp64 sat)
      in divideScalar64 totalForce (mass sat))"

text \<open>
  Lines 191-193, with \<open>dt\<close> the double \<open>deltaTime * timeScale\<close>: the satellite after
  the step.
\<close>

definition integrate64 :: "(real \<Rightarrow> real) \<Rightarrow> real \<Rightarrow> SatelliteState \<Rightarrow> SatelliteState" where
  "integrate64 exp64 dt sat =
     (let velocity' = add64 (velocity sat) (multiplyScalar64 (acceleration64 exp64 sat) dt);
          position' = add64 (position sat) (multiplyScalar64 velocity' dt)
      in sat\<lparr>position := position', velocity := velocity'\<rparr>)"

text \<open>
  Step 2 of section 4.2 of the specification: an acceleration of magnitude
  \<open>G * M / distance\<^sup>2\<close> directed from the body to the centre. It is formed here from
  the direction, the product \<open>G * M\<close> and the squared distance as the code's doubles
  hold them, and without the body's mass.
\<close>

definition massFreeAcceleration64 :: "SatelliteState \<Rightarrow> Vector3" where
  "massFreeAcceleration64 sat =
     multiplyScalar (multiplyScalar64 (normalize64 (position sat)) (- 1))
       (fl (G64 * EARTH_MASS64)
        / fl (length64 (position sat) * length64 (position sat)))"

text \<open>
  The unit roundoff of binary64, the factor \<open>(1 + u)\<^sup>k - 1\<close> that \<open>k\<close> roundings can
  contribute, and a relative error bound.
\<close>

definition unit_roundoff :: real where
  "unit_roundoff = 1 / 2 ^ 53"

definition rnd_bound :: "nat \<Rightarrow> real" where
  "rnd_bound k = (1 + unit_roundoff) ^ k - 1"

definition rel_err :: "real \<Rightarrow> real \<Rightarrow> real \<Rightarrow> bool" where
  "rel_err x a r = (\<bar>x - a\<bar> \<le> r * \<bar>a\<bar>)"

section \<open>The three ways through updatePhysics\<close>

lemma vlength_x_axis: "vlength (Vector3 a 0 0) = \<bar>a\<bar>"
  by (simp add: vlength_def)

lemma vlength_y_axis: "vlength (Vector3 0 a 0) = \<bar>a\<bar>"
  by (simp add: vlength_def)

lemma add_zero_scaled [simp]: "add v (multiplyScalar w 0) = v"
  by (cases v) (simp add: add_def multiplyScalar_def)

lemma add_zero_vector [simp]: "add v (Vector3 0 0 0) = v"
  by (cases v) (simp add: add_def)

lemma updatePhysics_empty: "satellites s = [] \<Longrightarrow> updatePhysics deltaTime s = Inr s"
  by (simp add: updatePhysics_def)

lemma updatePhysics_crashed:
  "satellites s = sat # others \<Longrightarrow> vlength (position sat) \<le> EARTH_RADIUS + 50000 \<Longrightarrow>
   updatePhysics deltaTime s =
     Inr (s\<lparr>statusElement := map_option (\<lambda>_. ''Crashed!'') (statusElement s)\<rparr>)"
  by (simp add: updatePhysics_def Let_def)

lemma updatePhysics_advance:
  assumes "satellites s = sat # others"
      and "\<not> vlength (position sat) \<le> EARTH_RADIUS + 50000"
      and "mass sat \<noteq> 0"
  shows "\<exists>s'. updatePhysics deltaTime s = Inr s' \<and>
           satellites s' =
             sat\<lparr>position :=
                   add (position sat)
                     (multiplyScalar
                        (add (velocity sat)
                           (multiplyScalar (acceleration sat) (deltaTime * timeScale s)))
                        (deltaTime * timeScale s)),
                 velocity :=
                   add (velocity sat)
                     (multiplyScalar (acceleration sat) (deltaTime * timeScale s))\<rparr> # others \<and>
           trails s' =
             recordTrail (hd (if trails s = [] then [[]] else trails s))
               (position (hd (satellites s'))) # tl (if trails s = [] then [[]] else trails s) \<and>
           statusElement s' =
             map_option
               (\<lambda>_. if vlength (velocity (hd (satellites s')))
                         > sqrt ((2 * G * EARTH_MASS) / vlength (position sat))
                     then ''Escaping!'' else ''Orbiting'')
               (statusElement s)"
  using assms by (simp add: updatePhysics_def Let_def)

lemma updatePhysics_frame:
  assumes "stays_finite s"
  shows "\<exists>s'. updatePhysics deltaTime s = Inr s' \<and>
           length (satellites s') = length (satellites s) \<and>
           tl (satellites s') = tl (satellites s) \<and>
           map mass (satellites s') = map mass (satellites s) \<and>
           (\<forall>sat others. satellites s = sat # others \<longrightarrow>
              vlength (position sat) \<le> EARTH_RADIUS + 50000 \<longrightarrow> satellites s' = satellites s)"
proof (cases "satellites s")
  case Nil
  then show ?thesis by (simp add: updatePhysics_empty)
next
  case (Cons sat others)
  show ?thesis
  proof (cases "vlength (position sat) \<le> EARTH_RADIUS + 50000")
    case True
    with Cons show ?thesis by (simp add: updatePhysics_crashed)
  next
    case False
    with Cons assms have m: "mass sat \<noteq> 0" by (simp add: stays_finite_def)
    from updatePhysics_advance [OF Cons False m, of deltaTime]
    obtain s' where "updatePhysics deltaTime s = Inr s'"
      and "satellites s' =
             sat\<lparr>position :=
                   add (position sat)
                     (multiplyScalar
                        (add (velocity sat)
                           (multiplyScalar (acceleration sat) (deltaTime * timeScale s)))
                        (deltaTime * timeScale s)),
                 velocity :=
                   add (velocity sat)
                     (multiplyScalar (acceleration sat) (deltaTime * timeScale s))\<rparr> # others"
      by blast
    with Cons False show ?thesis by simp
  qed
qed

lemma stays_finite_timeScale [simp]: "stays_finite (s\<lparr>timeScale := c\<rparr>) = stays_finite s"
  by (simp add: stays_finite_def)

lemma tick_frame:
  assumes "stays_finite s"
  shows "\<exists>s'. tick dtSeconds scale s = Inr s' \<and>
           length (satellites s') = length (satellites s) \<and>
           tl (satellites s') = tl (satellites s) \<and>
           map mass (satellites s') = map mass (satellites s) \<and>
           (\<forall>sat others. satellites s = sat # others \<longrightarrow>
              vlength (position sat) \<le> EARTH_RADIUS + 50000 \<longrightarrow> satellites s' = satellites s)"
  using updatePhysics_frame [of "s\<lparr>timeScale := scale\<rparr>" dtSeconds] assms
  by (simp add: tick_def)

lemma nth_tl_eq:
  assumes "length xs = length ys" and "tl xs = tl ys" and "0 < i"
  shows "xs ! i = ys ! i"
proof (cases xs)
  case Nil
  with assms show ?thesis by simp
next
  case (Cons x xs')
  with assms obtain y ys' where "ys = y # ys'" by (cases ys) auto
  with Cons assms show ?thesis by (cases i) auto
qed

lemma default_satellite_far:
  "\<not> vlength (position default_satellite) \<le> EARTH_RADIUS + 50000"
  by (simp add: default_satellite_def vlength_x_axis EARTH_RADIUS_def)

lemma orbit_state_finite: "stays_finite orbit_state"
  by (simp add: stays_finite_def orbit_state_def default_satellite_def)

section \<open>The density model\<close>

lemma density_spec_total: "density_spec a = Some (bandDensity a)"
  unfolding density_spec_def density_bands_def bandDensity_def Let_def
  by (simp add: max_def)

lemma bandDensity_nonneg: "0 \<le> bandDensity a"
  unfolding bandDensity_def Let_def by simp

lemma bandDensity_clamped: "a < 0 \<Longrightarrow> bandDensity a = bandDensity 0"
  unfolding bandDensity_def Let_def by (simp add: max_def)

lemma bandDensity_high: "1000000 \<le> a \<Longrightarrow> bandDensity a = 0"
  unfolding bandDensity_def Let_def by (simp add: max_def)

lemma density_on_miss:
  "cache (cacheKey a) = None \<Longrightarrow> fst (calculateAtmosphericDensity a cache) = bandDensity a"
  by (simp add: calculateAtmosphericDensity_def Let_def)

text \<open>
  Claim C6. On a call whose 100 m bucket is not cached, the density returned for an
  altitude \<open>a\<close> is the value of the specification's table at \<open>max 0 a\<close>, the bands
  tried in the listed order; it is not negative; below zero it is the density returned
  for altitude 0 (on a call that also misses the cache); from 1 000 000 m on it is 0.
\<close>

theorem density_matches_table:
  assumes "cache (cacheKey a) = None"
  shows "density_spec a = Some (fst (calculateAtmosphericDensity a cache)) \<and>
         0 \<le> fst (calculateAtmosphericDensity a cache) \<and>
         (a < 0 \<longrightarrow> cache0 (cacheKey 0) = None \<longrightarrow>
            fst (calculateAtmosphericDensity a cache)
              = fst (calculateAtmosphericDensity 0 cache0)) \<and>
         (1000000 \<le> a \<longrightarrow> fst (calculateAtmosphericDensity a cache) = 0)"
  using assms
  by (simp add: density_on_miss density_spec_total bandDensity_nonneg bandDensity_clamped
      bandDensity_high)

theorem density_matches_table_witness:
  "(Map.empty (cacheKey (- 20)) = None \<and> (- 20 :: real) < 0 \<and> Map.empty (cacheKey 0) = None \<and>
    density_spec (- 20) = Some (fst (calculateAtmosphericDensity (- 20) Map.empty)) \<and>
    fst (calculateAtmosphericDensity (- 20) Map.empty)
      = fst (calculateAtmosphericDensity 0 Map.empty)) \<and>
   (Map.empty (cacheKey 2000000) = None \<and> (1000000 :: real) \<le> 2000000 \<and>
    fst (calculateAtmosphericDensity 2000000 Map.empty) = 0)"
proof -
  have miss: "(Map.empty :: int \<rightharpoonup> real) k = None" for k by simp
  show ?thesis
    using density_matches_table [OF miss, of "- 20" Map.empty]
      density_matches_table [OF miss, of 2000000 Map.empty]
    by simp
qed

section \<open>Crash, frame and zero step\<close>

lemma ticks_crashed_first:
  assumes "satellites s = sat # others"
      and "vlength (position sat) \<le> EARTH_RADIUS + 50000"
  shows "\<exists>s'. ticks ts s = Inr s' \<and> satellites s' = satellites s"
  using assms
proof (induction ts arbitrary: s)
  case Nil
  then show ?case by simp
next
  case (Cons t ts)
  obtain dtSeconds scale where t: "t = (dtSeconds, scale)" by (cases t)
  from Cons.prems have "stays_finite s" by (simp add: stays_finite_def)
  from tick_frame [OF this, of dtSeconds scale] Cons.prems
  obtain s1 where s1: "tick dtSeconds scale s = Inr s1" "satellites s1 = satellites s"
    by blast
  with Cons.prems have "\<exists>s'. ticks ts s1 = Inr s' \<and> satellites s' = satellites s1"
    by (intro Cons.IH) simp_all
  with s1 t show ?case by simp
qed

lemma ticks_others:
  assumes "0 < i" and "i < length (satellites s)" and "mass (satellites s ! 0) \<noteq> 0"
  shows "\<exists>s'. ticks ts s = Inr s' \<and> length (satellites s') = length (satellites s) \<and>
           satellites s' ! i = satellites s ! i"
  using assms
proof (induction ts arbitrary: s)
  case Nil
  then show ?case by simp
next
  case (Cons t ts)
  obtain dtSeconds scale where t: "t = (dtSeconds, scale)" by (cases t)
  from Cons.prems obtain a as where a: "satellites s = a # as" by (cases "satellites s") auto
  with Cons.prems have "stays_finite s" by (simp add: stays_finite_def)
  from tick_frame [OF this, of dtSeconds scale]
  obtain s1 where s1: "tick dtSeconds scale s = Inr s1"
    and l: "length (satellites s1) = length (satellites s)"
    and tl: "tl (satellites s1) = tl (satellites s)"
    and m: "map mass (satellites s1) = map mass (satellites s)" by blast
  from l a obtain b bs where b: "satellites s1 = b # bs" by (cases "satellites s1") auto
  from a b m Cons.prems have m1: "mass (satellites s1 ! 0) \<noteq> 0" by simp
  from nth_tl_eq [OF l tl] Cons.prems have same: "satellites s1 ! i = satellites s ! i"
    by blast
  from Cons.IH [of s1] Cons.prems l m1
  obtain s' where "ticks ts s1 = Inr s'" "length (satellites s') = length (satellites s1)"
    "satellites s' ! i = satellites s1 ! i" by auto
  with s1 t l same show ?case by simp
qed

text \<open>
  Claim C4. A body that is within \<open>EARTH_RADIUS + 50000\<close> of the origin when a run of
  ticks starts keeps its position and velocity through the whole run, whatever the time
  steps and time scales: for the first body the crash check returns before anything is
  written, and no other body is ever written. (The run stays within the reals when the
  body is the first one or the first one's mass is not zero.)
\<close>

theorem crashed_is_terminal:
  assumes "i < length (satellites s)"
      and "vlength (position (satellites s ! i)) \<le> EARTH_RADIUS + 50000"
      and "i = 0 \<or> mass (satellites s ! 0) \<noteq> 0"
  shows "\<exists>s'. ticks ts s = Inr s' \<and>
           length (satellites s') = length (satellites s) \<and>
           position (satellites s' ! i) = position (satellites s ! i) \<and>
           velocity (satellites s' ! i) = velocity (satellites s ! i)"
proof (cases "i = 0")
  case True
  with assms obtain sat others where "satellites s = sat # others"
    "vlength (position sat) \<le> EARTH_RADIUS + 50000"
    by (cases "satellites s") auto
  from ticks_crashed_first [OF this, of ts] show ?thesis by auto
next
  case False
  with assms have "0 < i" "mass (satellites s ! 0) \<noteq> 0" by auto
  from ticks_others [OF this(1) assms(1) this(2), of ts] show ?thesis by auto
qed

theorem crashed_is_terminal_witness:
  "0 < length (satellites crashed_state) \<and>
   vlength (position (satellites crashed_state ! 0)) \<le> EARTH_RADIUS + 50000 \<and>
   (\<exists>s'. ticks [(0.016, 1), (0.016, 1000)] crashed_state = Inr s' \<and>
      length (satellites s') = length (satellites crashed_state) \<and>
      position (satellites s' ! 0) = Vector3 6400000 0 0 \<and>
      velocity (satellites s' ! 0) = Vector3 0 7800 0)"
proof -
  have h1: "0 < length (satellites crashed_state)"
    by (simp add: crashed_state_def)
  have h2: "vlength (position (satellites crashed_state ! 0)) \<le> EARTH_RADIUS + 50000"
    by (simp add: crashed_state_def default_satellite_def vlength_x_axis EARTH_RADIUS_def)
  have h3: "(0::nat) = 0 \<or> mass (satellites crashed_state ! 0) \<noteq> 0"
    by simp
  have p: "position (satellites crashed_state ! 0) = Vector3 6400000 0 0"
    "velocity (satellites crashed_state ! 0) = Vector3 0 7800 0"
    by (simp_all add: crashed_state_def default_satellite_def)
  from crashed_is_terminal [OF h1 h2 h3, of "[(0.016, 1), (0.016, 1000)]"] h1 h2 p
  show ?thesis by simp
qed

text \<open>
  Claim C8. With two or more registered bodies a tick writes the first one only: every
  other entry of \<open>satellites\<close> is the same record after the tick, all its fields
  included. (The hypothesis \<open>stays_finite\<close> keeps the first body's mass away from
  zero unless the tick returns at the crash check.)
\<close>

theorem others_unchanged:
  assumes "2 \<le> length (satellites s)" and "stays_finite s"
  shows "\<exists>s'. updatePhysics deltaTime s = Inr s' \<and>
           length (satellites s') = length (satellites s) \<and>
           (\<forall>i. 0 < i \<and> i < length (satellites s) \<longrightarrow> satellites s' ! i = satellites s ! i)"
proof -
  from updatePhysics_frame [OF assms(2), of deltaTime]
  obtain s' where r: "updatePhysics deltaTime s = Inr s'"
    and l: "length (satellites s') = length (satellites s)"
    and t: "tl (satellites s') = tl (satellites s)" by blast
  from nth_tl_eq [OF l t]
  have "\<forall>i. 0 < i \<and> i < length (satellites s) \<longrightarrow> satellites s' ! i = satellites s ! i"
    by blast
  with r l show ?thesis by blast
qed

theorem others_unchanged_witness:
  "2 \<le> length (satellites orbit_state) \<and> stays_finite orbit_state \<and>
   (\<exists>s'. updatePhysics 0.016 orbit_state = Inr s' \<and>
      length (satellites s') = 2 \<and>
      satellites s' ! 1 = default_satellite\<lparr>position := Vector3 0 7000000 0, mass := 500\<rparr>)"
proof -
  have h1: "2 \<le> length (satellites orbit_state)"
    by (simp add: orbit_state_def)
  have l: "length (satellites orbit_state) = 2"
    "satellites orbit_state ! 1
       = default_satellite\<lparr>position := Vector3 0 7000000 0, mass := 500\<rparr>"
    by (simp_all add: orbit_state_def)
  from others_unchanged [OF h1 orbit_state_finite, of "0.016"]
  obtain s' where "updatePhysics 0.016 orbit_state = Inr s'"
    "length (satellites s') = length (satellites orbit_state)"
    "\<forall>i. 0 < i \<and> i < length (satellites orbit_state) \<longrightarrow>
         satellites s' ! i = satellites orbit_state ! i"
    by blast
  with l have "updatePhysics 0.016 orbit_state = Inr s' \<and> length (satellites s') = 2 \<and>
      satellites s' ! 1 = default_satellite\<lparr>position := Vector3 0 7000000 0, mass := 500\<rparr>"
    by simp
  with h1 orbit_state_finite show ?thesis by blast
qed

text \<open>
  Claim C9. A tick with \<open>deltaTime = 0\<close>, at any time scale, leaves the list of
  satellite records as it was: position, velocity, mass, drag coefficient, area and
  \<open>airEnabled\<close> of every body. (In a state where the first body has zero mass and is
  not crashed the step leaves the reals; \<open>stays_finite\<close> excludes it.)
\<close>

theorem zero_step_is_noop:
  assumes "stays_finite s"
  shows "\<exists>s'. tick 0 scale s = Inr s' \<and> satellites s' = satellites s"
proof (cases "satellites s")
  case Nil
  then show ?thesis by (simp add: tick_def updatePhysics_empty)
next
  case (Cons sat others)
  show ?thesis
  proof (cases "vlength (position sat) \<le> EARTH_RADIUS + 50000")
    case True
    with Cons show ?thesis by (simp add: tick_def updatePhysics_crashed)
  next
    case False
    with Cons assms have m: "mass sat \<noteq> 0" by (simp add: stays_finite_def)
    from Cons have c: "satellites (s\<lparr>timeScale := scale\<rparr>) = sat # others" by simp
    from updatePhysics_advance [OF c False m, of 0] Cons
    show ?thesis by (auto simp add: tick_def)
  qed
qed

theorem zero_step_is_noop_witness:
  "stays_finite orbit_state \<and>
   (\<exists>s'. tick 0 250 orbit_state = Inr s' \<and> satellites s' = satellites orbit_state)"
  using zero_step_is_noop [OF orbit_state_finite, of 250] orbit_state_finite by simp

section \<open>Integration\<close>

text \<open>
  Claim C5. On a tick that passes the crash check, with \<open>dt = deltaTime * timeScale\<close>,
  the new velocity is \<open>velocity + acceleration * dt\<close> and the new position is
  \<open>position + velocity' * dt\<close> with the new velocity \<open>velocity'\<close>: the position moves
  by \<open>velocity * dt + acceleration * dt * dt\<close>, not by \<open>velocity * dt\<close>.
\<close>

theorem semi_implicit_euler:
  assumes "satellites s = sat # others"
      and "\<not> vlength (position sat) \<le> EARTH_RADIUS + 50000"
      and "mass sat \<noteq> 0"
  shows "\<exists>s' sat' others'. updatePhysics deltaTime s = Inr s' \<and> satellites s' = sat' # others' \<and>
           velocity sat' =
             add (velocity sat) (multiplyScalar (acceleration sat) (deltaTime * timeScale s)) \<and>
           position sat' =
             add (position sat) (multiplyScalar (velocity sat') (deltaTime * timeScale s)) \<and>
           position sat' =
             add (add (position sat) (multiplyScalar (velocity sat) (deltaTime * timeScale s)))
               (multiplyScalar (acceleration sat)
                  ((deltaTime * timeScale s) * (deltaTime * timeScale s)))"
proof -
  from updatePhysics_advance [OF assms, of deltaTime]
  obtain s' where "updatePhysics deltaTime s = Inr s'"
    and "satellites s' =
             sat\<lparr>position :=
                   add (position sat)
                     (multiplyScalar
                        (add (velocity sat)
                           (multiplyScalar (acceleration sat) (deltaTime * timeScale s)))
                        (deltaTime * timeScale s)),
                 velocity :=
                   add (velocity sat)
                     (multiplyScalar (acceleration sat) (deltaTime * timeScale s))\<rparr> # others"
    by blast
  then show ?thesis
    by (simp add: add_def multiplyScalar_def algebra_simps)
qed

theorem semi_implicit_euler_witness:
  "satellites orbit_state
     = default_satellite # [default_satellite\<lparr>position := Vector3 0 7000000 0, mass := 500\<rparr>] \<and>
   \<not> vlength (position default_satellite) \<le> EARTH_RADIUS + 50000 \<and>
   mass default_satellite \<noteq> 0 \<and>
   (\<exists>s' sat' others'. updatePhysics 0.016 orbit_state = Inr s' \<and> satellites s' = sat' # others' \<and>
      velocity sat' =
        add (velocity default_satellite)
          (multiplyScalar (acceleration default_satellite) (0.016 * timeScale orbit_state)) \<and>
      position sat' =
        add (position default_satellite)
          (multiplyScalar (velocity sat') (0.016 * timeScale orbit_state)))"
proof -
  have h1: "satellites orbit_state
     = default_satellite # [default_satellite\<lparr>position := Vector3 0 7000000 0, mass := 500\<rparr>]"
    by (simp add: orbit_state_def)
  have h3: "mass default_satellite \<noteq> 0"
    by (simp add: default_satellite_def)
  from semi_implicit_euler [OF h1 default_satellite_far h3, of "0.016"]
    h1 default_satellite_far h3
  show ?thesis by blast
qed

section \<open>Trail sampling\<close>

lemma recordTrail_bounded:
  "length trail \<le> maxTrailLength \<Longrightarrow> length (recordTrail trail p) \<le> maxTrailLength"
  by (simp add: recordTrail_def Let_def)

lemma updatePhysics_trails_bounded:
  assumes "stays_finite s" and "trails_bounded s"
  shows "\<exists>s'. updatePhysics deltaTime s = Inr s' \<and> stays_finite s' \<and> trails_bounded s'"
proof (cases "satellites s")
  case Nil
  with assms show ?thesis by (simp add: updatePhysics_empty)
next
  case (Cons sat others)
  show ?thesis
  proof (cases "vlength (position sat) \<le> EARTH_RADIUS + 50000")
    case True
    with Cons assms show ?thesis
      by (simp add: updatePhysics_crashed stays_finite_def trails_bounded_def)
  next
    case False
    with Cons assms have m: "mass sat \<noteq> 0" by (simp add: stays_finite_def)
    from updatePhysics_advance [OF Cons False m, of deltaTime]
    obtain s' where r: "updatePhysics deltaTime s = Inr s'"
      and sats: "satellites s' =
             sat\<lparr>position :=
                   add (position sat)
                     (multiplyScalar
                        (add (velocity sat)
                           (multiplyScalar (acceleration sat) (deltaTime * timeScale s)))
                        (deltaTime * timeScale s)),
                 velocity :=
                   add (velocity sat)
                     (multiplyScalar (acceleration sat) (deltaTime * timeScale s))\<rparr> # others"
      and tr: "trails s' =
             recordTrail (hd (if trails s = [] then [[]] else trails s))
               (position (hd (satellites s'))) # tl (if trails s = [] then [[]] else trails s)"
      by blast
    from sats m have f: "stays_finite s'" by (simp add: stays_finite_def)
    have b: "trails_bounded s'"
    proof (cases "trails s")
      case Nil
      with tr show ?thesis by (simp add: trails_bounded_def recordTrail_bounded)
    next
      case (Cons t rest)
      with tr assms(2) show ?thesis by (simp add: trails_bounded_def recordTrail_bounded)
    qed
    from r f b show ?thesis by blast
  qed
qed

lemma trails_bounded_timeScale [simp]: "trails_bounded (s\<lparr>timeScale := c\<rparr>) = trails_bounded s"
  by (simp add: trails_bounded_def)

lemma ticks_trails_bounded:
  assumes "stays_finite s" and "trails_bounded s"
  shows "\<exists>s'. ticks ts s = Inr s' \<and> stays_finite s' \<and> trails_bounded s'"
  using assms
proof (induction ts arbitrary: s)
  case Nil
  then show ?case by simp
next
  case (Cons t ts)
  obtain dtSeconds scale where t: "t = (dtSeconds, scale)" by (cases t)
  from updatePhysics_trails_bounded [of "s\<lparr>timeScale := scale\<rparr>" dtSeconds] Cons.prems
  obtain s1 where "tick dtSeconds scale s = Inr s1" "stays_finite s1" "trails_bounded s1"
    by (auto simp add: tick_def)
  with Cons.IH [of s1] t show ?case by auto
qed

lemma recordTrail_pinned:
  "recordTrail trail p =
     (if trail = [] \<or> distanceTo p (last trail) > 1000 then
        (if length trail + 1 > maxTrailLength then tl trail @ [p] else trail @ [p])
      else trail)"
  by (cases trail) (simp_all add: recordTrail_def Let_def maxTrailLength_def)

lemma updatePhysics_trail_pinned:
  assumes "stays_finite s"
  shows "\<exists>s'. updatePhysics deltaTime s = Inr s' \<and>
           (let old = (if trails s = [] then [] else hd (trails s));
                p = position (hd (satellites s'));
                advanced = (satellites s \<noteq> [] \<and>
                   \<not> vlength (position (hd (satellites s))) \<le> EARTH_RADIUS + 50000)
            in trails s' =
                 (if advanced then
                    (if old = [] \<or> distanceTo p (last old) > 1000 then
                       (if length old + 1 > maxTrailLength then tl old @ [p] else old @ [p])
                     else old) # tl (trails s)
                  else trails s))"
proof (cases "satellites s")
  case Nil
  with assms show ?thesis by (simp add: updatePhysics_empty)
next
  case (Cons sat others)
  show ?thesis
  proof (cases "vlength (position sat) \<le> EARTH_RADIUS + 50000")
    case True
    with Cons assms show ?thesis
      by (simp add: updatePhysics_crashed)
  next
    case False
    with Cons assms have m: "mass sat \<noteq> 0" by (simp add: stays_finite_def)
    from updatePhysics_advance [OF Cons False m, of deltaTime]
    obtain s' where r: "updatePhysics deltaTime s = Inr s'"
      and tr: "trails s' =
             recordTrail (hd (if trails s = [] then [[]] else trails s))
               (position (hd (satellites s'))) # tl (if trails s = [] then [[]] else trails s)"
      by blast
    show ?thesis
    proof (cases "trails s")
      case Nil
      with tr r Cons False show ?thesis by (simp add: recordTrail_def maxTrailLength_def)
    next
      case (Cons t rest)
      with tr r \<open>satellites s = sat # others\<close> False show ?thesis
        by (simp add: Let_def recordTrail_pinned [of t])
    qed
  qed
qed

lemma distanceTo_x_axis: "distanceTo (Vector3 a 0 0) (Vector3 b 0 0) = \<bar>a - b\<bar>"
  by (simp add: distanceTo_def)

lemma capped_step_position:
  "position (hd (satellites (projr (updatePhysics 0.016 capped_state))))
     = Vector3 (5490080643216 / 765625) 0 0"
  by (simp add: updatePhysics_def capped_state_def high_speed_state_def default_satellite_def
      Let_def vlength_x_axis EARTH_RADIUS_def acceleration_def gravityForce_def dragForce_def
      normalize_vec_def divideScalar_def multiplyScalar_def add_def G_def EARTH_MASS_def)

text \<open>
  Claim C7. From a state whose trails are all within \<open>maxTrailLength\<close> (1000), every
  run of ticks ends in such a state. One tick that advances the first body (there is a
  body and it passes the crash check) rewrites the first trail and no other: when that
  trail was empty or the body's new position is more than 1000 m from its last sample,
  the new position is appended, and if that makes the trail longer than
  \<open>maxTrailLength\<close> the oldest sample is dropped and the new one kept; otherwise the
  trail stays as it was. A tick that does not advance the body leaves all trails as
  they were.
\<close>

theorem trail_sampling:
  assumes "stays_finite s" and "trails_bounded s"
  shows "(\<exists>s'. ticks ts s = Inr s' \<and> trails_bounded s') \<and>
         (\<exists>s'. updatePhysics deltaTime s = Inr s' \<and>
           (let old = (if trails s = [] then [] else hd (trails s));
                p = position (hd (satellites s'));
                advanced = (satellites s \<noteq> [] \<and>
                   \<not> vlength (position (hd (satellites s))) \<le> EARTH_RADIUS + 50000)
            in trails s' =
                 (if advanced then
                    (if old = [] \<or> distanceTo p (last old) > 1000 then
                       (if length old + 1 > maxTrailLength then tl old @ [p] else old @ [p])
                     else old) # tl (trails s)
                  else trails s)))"
  using ticks_trails_bounded [OF assms, of ts]
    updatePhysics_trail_pinned [OF assms(1), of deltaTime]
  by blast

theorem trail_sampling_witness:
  "stays_finite capped_state \<and> trails_bounded capped_state \<and>
   (\<exists>s'. ticks [(0.016, 1), (0.016, 100), (0.016, 1000)] capped_state = Inr s' \<and>
      trails_bounded s') \<and>
   (\<exists>s'. updatePhysics 0.016 capped_state = Inr s' \<and>
      trails s' = [replicate 999 (Vector3 6900000 0 0) @ [position (hd (satellites s'))]] \<and>
      length (hd (trails s')) = 1000 \<and>
      7170717 < vx (position (hd (satellites s'))) \<and>
      vx (position (hd (satellites s'))) < 7170718)"
proof -
  have f: "stays_finite capped_state"
    by (simp add: stays_finite_def capped_state_def high_speed_state_def default_satellite_def)
  have b: "trails_bounded capped_state"
    by (simp add: trails_bounded_def capped_state_def maxTrailLength_def)
  have far: "satellites capped_state \<noteq> [] \<and>
      \<not> vlength (position (hd (satellites capped_state))) \<le> EARTH_RADIUS + 50000"
    by (simp add: capped_state_def high_speed_state_def default_satellite_def vlength_x_axis
        EARTH_RADIUS_def)
  have old: "trails capped_state = [replicate 1000 (Vector3 6900000 0 0)]"
    by (simp add: capped_state_def)
  have cut: "tl (replicate 1000 (Vector3 6900000 0 0)) = replicate 999 (Vector3 6900000 0 0)"
    by (simp add: tl_replicate)
  from trail_sampling [OF f b, of "[(0.016, 1), (0.016, 100), (0.016, 1000)]" "0.016"]
  obtain s1 s2 where run: "ticks [(0.016, 1), (0.016, 100), (0.016, 1000)] capped_state = Inr s1"
      "trails_bounded s1"
    and step: "updatePhysics 0.016 capped_state = Inr s2"
      "(let old = (if trails capped_state = [] then [] else hd (trails capped_state));
            p = position (hd (satellites s2));
            advanced = (satellites capped_state \<noteq> [] \<and>
               \<not> vlength (position (hd (satellites capped_state))) \<le> EARTH_RADIUS + 50000)
        in trails s2 =
             (if advanced then
                (if old = [] \<or> distanceTo p (last old) > 1000 then
                   (if length old + 1 > maxTrailLength then tl old @ [p] else old @ [p])
                 else old) # tl (trails capped_state)
              else trails capped_state))"
    by blast
  from step(1) capped_step_position
  have pos: "position (hd (satellites s2)) = Vector3 (5490080643216 / 765625) 0 0"
    by simp
  from step(2) far
  have "trails s2 = [replicate 999 (Vector3 6900000 0 0) @ [position (hd (satellites s2))]]"
    by (simp add: Let_def old pos cut distanceTo_x_axis maxTrailLength_def)
  moreover from this have "length (hd (trails s2)) = 1000" by simp
  moreover from pos have "7170717 < vx (position (hd (satellites s2)))"
    "vx (position (hd (satellites s2))) < 7170718" by simp_all
  ultimately show ?thesis using f b run step(1) by blast
qed

section \<open>Status\<close>

lemma stale_bounds:
  "\<not> sqrt (797178392 / 7) * 765625 < (8169102701::real)"
  "sqrt (38146231648437500000 / 343130040201) * 765625 < (8169102701::real)"
proof -
  have "(8169102701 / 765625 :: real) \<le> sqrt (797178392 / 7)"
    by (rule real_le_rsqrt) (simp add: power2_eq_square)
  then show "\<not> sqrt (797178392 / 7) * 765625 < (8169102701::real)"
    by (simp add: field_simps)
  have "sqrt (38146231648437500000 / 343130040201) < (8169102701 / 765625 :: real)"
    by (rule real_less_lsqrt) (simp_all add: power2_eq_square)
  then show "sqrt (38146231648437500000 / 343130040201) * 765625 < (8169102701::real)"
    by (simp add: field_simps)
qed

text \<open>
  Claim C2 as stated fails. In \<open>high_speed_state\<close> the tick does not crash; after it
  the speed (about 10669.8 m/s) exceeds the escape velocity at the new distance (about
  10543.8 m/s at 7170.7 km), yet the status written is \<open>Orbiting\<close>: the code compares
  with the escape velocity at the distance measured before the update (about 10671.6 m/s
  at 7000 km).
\<close>

theorem stale_escape_distance_counterexample:
  "\<not> isl (updatePhysics 0.016 high_speed_state) \<and>
   statusElement (projr (updatePhysics 0.016 high_speed_state)) = Some ''Orbiting'' \<and>
   vlength (velocity (hd (satellites (projr (updatePhysics 0.016 high_speed_state)))))
     > sqrt (2 * G * EARTH_MASS
             / vlength (position (hd (satellites (projr (updatePhysics 0.016 high_speed_state))))))"
  using stale_bounds
  by (simp add: updatePhysics_def high_speed_state_def default_satellite_def Let_def
      vlength_x_axis EARTH_RADIUS_def acceleration_def gravityForce_def dragForce_def
      normalize_vec_def divideScalar_def multiplyScalar_def add_def G_def EARTH_MASS_def
      recordTrail_def SCALE_FACTOR_def maxTrailLength_def)

text \<open>
  Claim C2, amended. On a tick that passes the crash check the status text becomes
  \<open>Escaping!\<close> exactly when the speed after the update exceeds
  \<open>sqrt (2 * G * EARTH_MASS / d)\<close> for the distance \<open>d\<close> measured at the start of the
  tick, before the position update, and \<open>Orbiting\<close> otherwise (the text is written
  where the page has a status element).
\<close>

theorem escape_status:
  assumes "satellites s = sat # others"
      and "\<not> vlength (position sat) \<le> EARTH_RADIUS + 50000"
      and "mass sat \<noteq> 0"
  shows "\<exists>s' sat' others'. updatePhysics deltaTime s = Inr s' \<and> satellites s' = sat' # others' \<and>
           statusElement s' =
             map_option
               (\<lambda>_. if vlength (velocity sat') > sqrt (2 * G * EARTH_MASS / vlength (position sat))
                     then ''Escaping!'' else ''Orbiting'')
               (statusElement s)"
proof -
  from updatePhysics_advance [OF assms, of deltaTime]
  obtain s' where s': "updatePhysics deltaTime s = Inr s'"
    "satellites s' \<noteq> []"
    "statusElement s' =
             map_option
               (\<lambda>_. if vlength (velocity (hd (satellites s')))
                         > sqrt ((2 * G * EARTH_MASS) / vlength (position sat))
                     then ''Escaping!'' else ''Orbiting'')
               (statusElement s)"
    by auto
  then obtain sat' others' where "satellites s' = sat' # others'"
    by (cases "satellites s'") auto
  with s' show ?thesis by auto
qed

theorem escape_status_witness:
  "satellites orbit_state
     = default_satellite # [default_satellite\<lparr>position := Vector3 0 7000000 0, mass := 500\<rparr>] \<and>
   \<not> vlength (position default_satellite) \<le> EARTH_RADIUS + 50000 \<and>
   mass default_satellite \<noteq> 0 \<and>
   (\<exists>s' sat' others'. updatePhysics 0.016 orbit_state = Inr s' \<and> satellites s' = sat' # others' \<and>
      statusElement s' =
        Some (if vlength (velocity sat') > sqrt (2 * G * EARTH_MASS / 6771000)
              then ''Escaping!'' else ''Orbiting''))"
proof -
  have h1: "satellites orbit_state
     = default_satellite # [default_satellite\<lparr>position := Vector3 0 7000000 0, mass := 500\<rparr>]"
    by (simp add: orbit_state_def)
  have h3: "mass default_satellite \<noteq> 0"
    by (simp add: default_satellite_def)
  have d: "vlength (position default_satellite) = 6771000"
    by (simp add: default_satellite_def vlength_x_axis)
  have st: "statusElement orbit_state = Some ''Orbiting''"
    by (simp add: orbit_state_def)
  from escape_status [OF h1 default_satellite_far h3, of "0.016"]
  obtain s' sat' others' where "updatePhysics 0.016 orbit_state = Inr s'"
    "satellites s' = sat' # others'"
    "statusElement s' =
        Some (if vlength (velocity sat') > sqrt (2 * G * EARTH_MASS / 6771000)
              then ''Escaping!'' else ''Orbiting'')"
    unfolding d st by auto
  with h1 default_satellite_far h3 show ?thesis by blast
qed

section \<open>Registration\<close>

text \<open>
  Claim C3 as stated fails: a negative mass is a truthy number, so \<open>mass || 1000\<close>
  keeps it, and the body stored has mass \<open>- 5\<close>.
\<close>

theorem negative_mass_counterexample:
  "mass (last (satellites (addSatelliteState (no_options\<lparr>opt_mass := Some (- 5)\<rparr>)
      initial_simulation))) = - 5 \<and>
   \<not> 0 < mass (last (satellites (addSatelliteState (no_options\<lparr>opt_mass := Some (- 5)\<rparr>)
      initial_simulation)))"
  by (simp add: addSatelliteState_def no_options_def or_default_def Let_def)

text \<open>
  Claim C3, amended. \<open>addSatelliteState\<close> appends one body and leaves the bodies
  already registered as they were. The mass stored is the default 1000 when the caller
  gives no mass or gives 0, and the caller's mass otherwise, so it is never 0; it is
  positive whenever the caller's mass, if given, is not negative.
\<close>

theorem stored_mass:
  "satellites (addSatelliteState options s) \<noteq> [] \<and>
   butlast (satellites (addSatelliteState options s)) = satellites s \<and>
   mass (last (satellites (addSatelliteState options s))) =
     (case opt_mass options of None \<Rightarrow> 1000 | Some m \<Rightarrow> if m = 0 then 1000 else m) \<and>
   mass (last (satellites (addSatelliteState options s))) \<noteq> 0 \<and>
   ((case opt_mass options of None \<Rightarrow> True | Some m \<Rightarrow> 0 \<le> m) \<longrightarrow>
      0 < mass (last (satellites (addSatelliteState options s))))"
  by (simp add: addSatelliteState_def or_default_def Let_def split: option.splits)

theorem stored_mass_witness:
  "(case opt_mass (no_options\<lparr>opt_mass := Some 0\<rparr>) of None \<Rightarrow> True | Some m \<Rightarrow> 0 \<le> m) \<and>
   mass (last (satellites (addSatelliteState (no_options\<lparr>opt_mass := Some 0\<rparr>) orbit_state)))
     = 1000 \<and>
   0 < mass (last (satellites (addSatelliteState (no_options\<lparr>opt_mass := Some 0\<rparr>) orbit_state))) \<and>
   butlast (satellites (addSatelliteState (no_options\<lparr>opt_mass := Some 0\<rparr>) orbit_state))
     = satellites orbit_state"
  using stored_mass [of "no_options\<lparr>opt_mass := Some 0\<rparr>" orbit_state]
  by (simp add: no_options_def)

section \<open>Drag and the airEnabled flag\<close>

lemma exp_lower: "1 / 531441 \<le> exp (- (200 / 17) :: real)"
proof -
  have "exp (12 :: real) = exp 1 ^ 12"
    using exp_of_nat_mult [of 12 "1::real"] by simp
  also have "\<dots> \<le> 3 ^ 12"
    by (rule power_mono) (simp_all add: exp_le)
  finally have "exp (12 :: real) \<le> 531441" by simp
  then have "1 / 531441 \<le> 1 / exp (12 :: real)"
    by (simp add: field_simps)
  also have "\<dots> = exp (- 12 :: real)" by (simp add: exp_minus field_simps)
  also have "\<dots> \<le> exp (- (200 / 17) :: real)" by simp
  finally show ?thesis .
qed

lemma air_disabled_satellites:
  "satellites air_disabled_state =
     [default_satellite\<lparr>position := Vector3 6471000 0 0, airEnabled := Some False\<rparr>]"
  by (simp add: air_disabled_state_def addSatelliteState_def no_options_def
      initial_simulation_def default_satellite_def or_default_def nullish_def Let_def
      EARTH_RADIUS_def)

lemma air_disabled_drag:
  "dragForce (default_satellite\<lparr>position := Vector3 6471000 0 0, airEnabled := Some False\<rparr>) =
     Vector3 0 (- (5 / 10 * (1225 / 1000 * exp (- (200 / 17))) * 7800 * 7800 * (22 / 10) * 4)) 0"
  by (simp add: dragForce_def default_satellite_def Let_def vlength_x_axis vlength_y_axis
      EARTH_RADIUS_def nullish_def normalize_vec_def divideScalar_def multiplyScalar_def)

text \<open>
  Claim C1 against the code. The body registered 100 km up by
  \<open>addSatelliteState({position: (6471000, 0, 0), airEnabled: false})\<close> has
  \<open>airEnabled = false\<close>, yet the drag force \<open>updatePhysics\<close> computes for it is not
  the zero vector (its y component is below -616 N), and one tick of 0.016 s leaves the
  body with a y velocity below 7799.991 m/s and a y position below 124.79986 m, where
  the update by gravity alone leaves 7800 m/s (and 124.8 m): \<open>updatePhysics\<close> never
  reads the flag. The gap of about 0.04 m/s is some ten orders of magnitude above the
  spacing of doubles near 7800.
\<close>

theorem airEnabled_false_still_drags:
  "airEnabled (hd (satellites air_disabled_state)) = Some False \<and>
   dragForce (hd (satellites air_disabled_state)) \<noteq> Vector3 0 0 0 \<and>
   vy (dragForce (hd (satellites air_disabled_state))) \<le> - 616 \<and>
   \<not> isl (updatePhysics 0.016 air_disabled_state) \<and>
   vy (velocity (hd (satellites (projr (updatePhysics 0.016 air_disabled_state))))) < 7799.991 \<and>
   vy (position (hd (satellites (projr (updatePhysics 0.016 air_disabled_state))))) < 124.79986 \<and>
   vy (add (velocity (hd (satellites air_disabled_state)))
         (multiplyScalar
            (divideScalar (gravityForce (hd (satellites air_disabled_state)))
               (mass (hd (satellites air_disabled_state))))
            (0.016 * timeScale air_disabled_state))) = 7800"
proof -
  let ?sat = "default_satellite\<lparr>position := Vector3 6471000 0 0, airEnabled := Some False\<rparr>"
  have far: "\<not> vlength (position ?sat) \<le> EARTH_RADIUS + 50000"
    by (simp add: default_satellite_def vlength_x_axis EARTH_RADIUS_def)
  have m: "mass ?sat \<noteq> 0" by (simp add: default_satellite_def)
  have g: "vy (gravityForce ?sat) = 0"
    by (simp add: gravityForce_def default_satellite_def Let_def normalize_vec_def
        divideScalar_def multiplyScalar_def)
  have d: "vy (dragForce ?sat) \<le> - (616 :: real)"
    using exp_lower by (simp add: air_disabled_drag)
  have a: "vy (acceleration ?sat) \<le> - (616 / 1000 :: real)"
    using g d by (simp add: acceleration_def Let_def add_def divideScalar_def
        multiplyScalar_def default_satellite_def)
  have ts: "timeScale air_disabled_state = 1"
    by (simp add: air_disabled_state_def addSatelliteState_def initial_simulation_def Let_def)
  from updatePhysics_advance [OF air_disabled_satellites far m, of "0.016"]
  obtain s' where s': "updatePhysics 0.016 air_disabled_state = Inr s'"
    "velocity (hd (satellites s')) =
       add (velocity ?sat)
         (multiplyScalar (acceleration ?sat) (0.016 * timeScale air_disabled_state))"
    "position (hd (satellites s')) =
       add (position ?sat)
         (multiplyScalar (velocity (hd (satellites s')))
            (0.016 * timeScale air_disabled_state))"
    by auto
  have v: "vy (velocity (hd (satellites s'))) < 7799.991"
    using a by (simp add: s'(2) ts add_def multiplyScalar_def default_satellite_def)
  have p: "vy (position (hd (satellites s'))) < 124.79986"
    using v by (simp add: s'(3) ts add_def multiplyScalar_def default_satellite_def)
  have nz: "dragForce ?sat \<noteq> Vector3 0 0 0"
    using d by auto
  have g2: "vy (add (velocity ?sat)
         (multiplyScalar (divideScalar (gravityForce ?sat) (mass ?sat))
            (0.016 * timeScale air_disabled_state))) = 7800"
    using g by (simp add: add_def multiplyScalar_def divideScalar_def default_satellite_def)
  from s'(1) v p nz d g2 show ?thesis
    by (simp add: air_disabled_satellites)
qed

section \<open>Mass and rounding\<close>

lemma round_even_near:
  assumes "\<bar>q - of_int m\<bar> < 1 / 2"
  shows "round_even q = m"
proof -
  have "\<lfloor>q\<rfloor> = m \<or> \<lfloor>q\<rfloor> = m - 1" using assms by linarith
  then show ?thesis
  proof
    assume f: "\<lfloor>q\<rfloor> = m"
    with assms have "q - of_int \<lfloor>q\<rfloor> < 1 / 2" by linarith
    with f show ?thesis by (simp add: round_even_def Let_def)
  next
    assume f: "\<lfloor>q\<rfloor> = m - 1"
    from assms have "of_int m - 1 / 2 < q" by linarith
    with f have "1 / 2 < q - of_int \<lfloor>q\<rfloor>" by simp
    then show ?thesis unfolding round_even_def Let_def f by simp
  qed
qed

lemma round_even_error: "\<bar>of_int (round_even q) - q\<bar> \<le> 1 / 2"
  unfolding round_even_def Let_def by (auto; linarith)

lemma fl_binade:
  assumes "x \<noteq> 0"
  shows "2 ^ 52 * 2 powi (\<lfloor>log 2 \<bar>x\<bar>\<rfloor> - 52) \<le> \<bar>x\<bar>"
proof -
  let ?k = "\<lfloor>log 2 \<bar>x\<bar>\<rfloor>"
  from assms have pos: "0 < \<bar>x\<bar>" by simp
  have "\<lfloor>log 2 \<bar>x\<bar>\<rfloor> = ?k" by simp
  with floor_log_eq_powr_iff [OF pos, of 2 ?k] have "2 powr (of_int ?k) \<le> \<bar>x\<bar>" by simp
  then have "(2::real) powi ?k \<le> \<bar>x\<bar>" by (simp add: powr_real_of_int')
  moreover have "(2::real) powi ?k = 2 ^ 52 * 2 powi (?k - 52)"
    by (simp add: power_int_diff)
  ultimately show ?thesis by simp
qed

text \<open>Rounding moves a number by at most the unit roundoff times its size.\<close>

lemma fl_error: "\<bar>fl x - x\<bar> \<le> unit_roundoff * \<bar>x\<bar>"
proof (cases "x = 0")
  case True
  then show ?thesis by (simp add: fl_def)
next
  case False
  let ?e = "\<lfloor>log 2 \<bar>x\<bar>\<rfloor> - 52"
  let ?p = "(2::real) powi ?e"
  have p: "0 < ?p" by simp
  have "fl x - x = (of_int (round_even (x / ?p)) - x / ?p) * ?p"
    using False p by (simp add: fl_def Let_def field_simps)
  then have "\<bar>fl x - x\<bar> = \<bar>of_int (round_even (x / ?p)) - x / ?p\<bar> * ?p"
    using p by (simp add: abs_mult)
  also have "\<dots> \<le> 1 / 2 * ?p"
    using round_even_error [of "x / ?p"] p by (intro mult_right_mono) simp_all
  also have "\<dots> = unit_roundoff * (2 ^ 52 * ?p)"
    by (simp add: unit_roundoff_def)
  also have "\<dots> \<le> unit_roundoff * \<bar>x\<bar>"
    using fl_binade [OF False] by (intro mult_left_mono) (simp_all add: unit_roundoff_def)
  finally show ?thesis .
qed

text \<open>
  The value of \<open>fl\<close> at a given number: a significand \<open>m\<close> and an exponent \<open>e\<close> with
  the number in the binade of \<open>e\<close> and nearer to \<open>m * 2\<^sup>e\<close> than half a unit in the
  last place.
\<close>

lemma fl_eqI:
  assumes "2 ^ 52 * 2 powi e \<le> \<bar>x\<bar>" and "\<bar>x\<bar> < 2 ^ 53 * 2 powi e"
      and "\<bar>x / 2 powi e - of_int m\<bar> < 1 / 2"
  shows "fl x = of_int m * 2 powi e"
proof -
  have p: "(0::real) < 2 powi e" by simp
  with assms(1) have pos: "0 < \<bar>x\<bar>"
    by (smt (verit) mult_pos_pos zero_less_power)
  then have nz: "x \<noteq> 0" by simp
  have k1: "(2::real) powr (of_int e + 52) = 2 ^ 52 * 2 powi e"
    by (simp add: powr_add powr_real_of_int')
  have k2: "(2::real) powr (53 + of_int e) = 2 ^ 53 * 2 powi e"
    by (simp add: powr_add powr_real_of_int')
  have "\<lfloor>log 2 \<bar>x\<bar>\<rfloor> = e + 52"
    using floor_log_eq_powr_iff [OF pos, of 2 "e + 52"] assms(1,2) k1 k2 by simp
  then have "\<lfloor>log 2 \<bar>x\<bar>\<rfloor> - 52 = e" by simp
  with nz round_even_near [OF assms(3)] show ?thesis
    by (simp add: fl_def Let_def)
qed

lemma fl_zero [simp]: "fl 0 = 0"
  by (simp add: fl_def)

text \<open>
  The roundings met when the step is run on \<open>boundary_satellite\<close> with mass 100 and
  with mass 1000, at \<open>deltaTime = 0.016\<close> and time scale 1.
\<close>

lemma binary64_value_0: "fl (66743 / 1000000000000000) = 1290997375656627 / 19342813113834066795298816"
  using fl_eqI [of "- 86" "66743 / 1000000000000000" "5163989502626508"] by simp

lemma binary64_value_1: "fl (5972000000000000000000000) = 5972000000000000327155712"
  using fl_eqI [of "30" "5972000000000000000000000" "5561858415603638"] by simp

lemma binary64_value_2: "fl (2 / 125) = 1152921504606847 / 72057594037927936"
  using fl_eqI [of "- 58" "2 / 125" "4611686018427388"] by simp

lemma binary64_value_3: "fl (1152921504606847 / 72057594037927936) = 1152921504606847 / 72057594037927936"
  using fl_eqI [of "- 58" "1152921504606847 / 72057594037927936" "4611686018427388"] by simp

lemma binary64_value_4: "fl (47210641000000) = 47210641000000"
  using fl_eqI [of "- 7" "47210641000000" "6042962048000000"] by simp

lemma binary64_value_5: "fl (6871000) = 6871000"
  using fl_eqI [of "- 30" "6871000" "7377680072704000"] by simp

lemma binary64_value_6: "fl (6421000) = 6421000"
  using fl_eqI [of "- 30" "6421000" "6894496251904000"] by simp

lemma binary64_value_7: "fl (3590172309159011052156410004513 / 9007199254740992) = 398589196000000"
  using fl_eqI [of "- 4" "3590172309159011052156410004513 / 9007199254740992" "6377427136000000"] by simp

lemma binary64_value_8: "fl (39858919600000000) = 39858919600000000"
  using fl_eqI [of "3" "39858919600000000" "4982364950000000"] by simp

lemma binary64_value_9: "fl (39858919600 / 47210641) = 3713175220034713 / 4398046511104"
  using fl_eqI [of "- 43" "39858919600 / 47210641" "7426350440069426"] by simp

lemma binary64_value_10: "fl (1 / 6871000) = 687289547790663 / 4722366482869645213696"
  using fl_eqI [of "- 75" "1 / 6871000" "5498316382325304"] by simp

lemma binary64_value_11: "fl (590295810358705684125 / 590295810358705651712) = 1"
  using fl_eqI [of "- 52" "590295810358705684125 / 590295810358705651712" "4503599627370496"] by simp

lemma binary64_value_12: "fl (- 1) = - 1"
  using fl_eqI [of "- 52" "- 1" "- 4503599627370496"] by simp

lemma binary64_value_13: "fl (- (3713175220034713 / 4398046511104)) = - (3713175220034713 / 4398046511104)"
  using fl_eqI [of "- 43" "- (3713175220034713 / 4398046511104)" "- 7426350440069426"] by simp

lemma binary64_value_14: "fl (500000) = 500000"
  using fl_eqI [of "- 34" "500000" "8589934592000000"] by simp

lemma binary64_value_15: "fl (1 / 100) = 5764607523034235 / 576460752303423488"
  using fl_eqI [of "- 59" "1 / 100" "5764607523034235"] by simp

lemma binary64_value_16: "fl (- (21404997807756407434603787399555 / 2535301200456458802993406410752)) = - (4752864281644433 / 562949953421312)"
  using fl_eqI [of "- 49" "- (21404997807756407434603787399555 / 2535301200456458802993406410752)" "- 4752864281644433"] by simp

lemma binary64_value_17: "fl (- (5479679438785640718310311232751 / 40564819207303340847894502572032)) = - (4866933024403899 / 36028797018963968)"
  using fl_eqI [of "- 55" "- (5479679438785640718310311232751 / 40564819207303340847894502572032)" "- 4866933024403899"] by simp

lemma binary64_value_18: "fl (- (4866933024403899 / 36028797018963968)) = - (4866933024403899 / 36028797018963968)"
  using fl_eqI [of "- 55" "- (4866933024403899 / 36028797018963968)" "- 4866933024403899"] by simp

lemma binary64_value_19: "fl (7800) = 7800"
  using fl_eqI [of "- 40" "7800" "8576190696652800"] by simp

lemma binary64_value_20: "fl (- (5611191745316495643604528896453 / 2596148429267413814265248164610048)) = - (4983739416989593 / 2305843009213693952)"
  using fl_eqI [of "- 61" "- (5611191745316495643604528896453 / 2596148429267413814265248164610048)" "- 4983739416989593"] by simp

lemma binary64_value_21: "fl (1124098466991675825 / 9007199254740992) = 8782019273372467 / 70368744177664"
  using fl_eqI [of "- 46" "1124098466991675825 / 9007199254740992" "8782019273372467"] by simp

lemma binary64_value_22: "fl (15843447311323551727202407 / 2305843009213693952) = 7377680070383265 / 1073741824"
  using fl_eqI [of "- 30" "15843447311323551727202407 / 2305843009213693952" "7377680070383265"] by simp

lemma binary64_value_23: "fl (8782019273372467 / 70368744177664) = 8782019273372467 / 70368744177664"
  using fl_eqI [of "- 46" "8782019273372467 / 70368744177664" "8782019273372467"] by simp

lemma binary64_value_24: "fl (398589196000000000) = 398589196000000000"
  using fl_eqI [of "6" "398589196000000000" "6227956187500000"] by simp

lemma binary64_value_25: "fl (398589196000 / 47210641) = 4641469025043391 / 549755813888"
  using fl_eqI [of "- 39" "398589196000 / 47210641" "4641469025043391"] by simp

lemma binary64_value_26: "fl (- (4641469025043391 / 549755813888)) = - (4641469025043391 / 549755813888)"
  using fl_eqI [of "- 39" "- (4641469025043391 / 549755813888)" "- 4641469025043391"] by simp

lemma binary64_value_27: "fl (1 / 1000) = 1152921504606847 / 1152921504606846976"
  using fl_eqI [of "- 62" "1 / 1000" "4611686018427388"] by simp

lemma binary64_value_28: "fl (- (5351249451939101570420570698177 / 633825300114114700748351602688)) = - (297054017602777 / 35184372088832)"
  using fl_eqI [of "- 49" "- (5351249451939101570420570698177 / 633825300114114700748351602688)" "- 4752864281644432"] by simp

lemma binary64_value_29: "fl (- (342479964924102472836800414119 / 2535301200456458802993406410752)) = - (2433466512201949 / 18014398509481984)"
  using fl_eqI [of "- 55" "- (342479964924102472836800414119 / 2535301200456458802993406410752)" "- 4866933024403898"] by simp

lemma binary64_value_30: "fl (- (2433466512201949 / 18014398509481984)) = - (2433466512201949 / 18014398509481984)"
  using fl_eqI [of "- 55" "- (2433466512201949 / 18014398509481984)" "- 4866933024403898"] by simp

lemma binary64_value_31: "fl (- (2805595872658247245341512144803 / 1298074214633706907132624082305024)) = - (622967427123699 / 288230376151711744)"
  using fl_eqI [of "- 61" "- (2805595872658247245341512144803 / 1298074214633706907132624082305024)" "- 4983739416989592"] by simp

lemma binary64_value_32: "fl (1980430913915443965900301 / 288230376151711744) = 7377680070383265 / 1073741824"
  using fl_eqI [of "- 30" "1980430913915443965900301 / 288230376151711744" "7377680070383265"] by simp

lemmas binary64_values =
  binary64_value_0 binary64_value_1 binary64_value_2 binary64_value_3 binary64_value_4
  binary64_value_5 binary64_value_6 binary64_value_7 binary64_value_8 binary64_value_9
  binary64_value_10 binary64_value_11 binary64_value_12 binary64_value_13 binary64_value_14
  binary64_value_15 binary64_value_16 binary64_value_17 binary64_value_18 binary64_value_19
  binary64_value_20 binary64_value_21 binary64_value_22 binary64_value_23 binary64_value_24
  binary64_value_25 binary64_value_26 binary64_value_27 binary64_value_28 binary64_value_29
  binary64_value_30 binary64_value_31 binary64_value_32

lemma sqrt_boundary: "sqrt 47210641000000 = 6871000"
  by (rule real_sqrt_unique) simp_all

lemma boundary_drag_off:
  "\<not> (fl (length64 (position boundary_satellite) - EARTH_RADIUS) < 500000 \<and>
      length64 (velocity boundary_satellite) > 1)"
  by (simp add: boundary_satellite_def default_satellite_def length64_def EARTH_RADIUS_def
      sqrt_boundary binary64_values)

text \<open>
  Claim C10 as stated fails on the program's doubles. \<open>boundary_satellite\<close> is 500 km
  up, so the drag branch is not taken and the tick passes the crash check; with
  \<open>deltaTime = 0.016\<close> at time scale 1 the x velocity after the step is
  \<open>- 4866933024403899 / 2\<^sup>5\<^sup>5\<close> (-0.13508452757504394) for mass 100 and
  \<open>- 4866933024403898 / 2\<^sup>5\<^sup>5\<close> (-0.1350845275750439) for mass 1000: the roundings
  of \<open>G * M * m / d\<^sup>2\<close> and of \<open>1 / m\<close> depend on \<open>m\<close>.
\<close>

theorem mass_changes_rounding_counterexample:
  "(0::real) < 100 \<and> (0::real) < 1000 \<and>
   \<not> (fl (length64 (position boundary_satellite) - EARTH_RADIUS) < 500000 \<and>
      length64 (velocity boundary_satellite) > 1) \<and>
   \<not> length64 (position boundary_satellite) \<le> fl (EARTH_RADIUS + 50000) \<and>
   velocity (integrate64 (\<lambda>x. fl (exp x)) (fl (fl 0.016 * 1)) (boundary_satellite\<lparr>mass := 100\<rparr>))
     = Vector3 (- (4866933024403899 / 2 ^ 55)) 7800 0 \<and>
   velocity (integrate64 (\<lambda>x. fl (exp x)) (fl (fl 0.016 * 1)) (boundary_satellite\<lparr>mass := 1000\<rparr>))
     = Vector3 (- (4866933024403898 / 2 ^ 55)) 7800 0 \<and>
   velocity (integrate64 (\<lambda>x. fl (exp x)) (fl (fl 0.016 * 1)) (boundary_satellite\<lparr>mass := 100\<rparr>))
     \<noteq> velocity (integrate64 (\<lambda>x. fl (exp x)) (fl (fl 0.016 * 1))
          (boundary_satellite\<lparr>mass := 1000\<rparr>))"
  by (simp add: integrate64_def acceleration64_def gravityForce64_def dragForce64_def
      add64_def divideScalar64_def multiplyScalar64_def normalize64_def length64_def
      G64_def EARTH_MASS64_def EARTH_RADIUS_def boundary_satellite_def default_satellite_def
      Let_def sqrt_boundary binary64_values)

text \<open>How relative errors pass through a rounding, a product and a quotient.\<close>

lemma unit_roundoff_nonneg: "0 \<le> unit_roundoff"
  by (simp add: unit_roundoff_def)

lemma rnd_bound_Suc: "rnd_bound (Suc k) = rnd_bound k + unit_roundoff * (1 + rnd_bound k)"
  by (simp add: rnd_bound_def algebra_simps)

lemma rnd_bound_nonneg: "0 \<le> rnd_bound k"
  using unit_roundoff_nonneg by (simp add: rnd_bound_def one_le_power)

lemma rnd_bound_add: "(1 + rnd_bound j) * (1 + rnd_bound k) = 1 + rnd_bound (j + k)"
  by (simp add: rnd_bound_def power_add)

lemma rel_err_exact: "rel_err a a (rnd_bound 0)"
  by (simp add: rel_err_def rnd_bound_def)

lemma rel_err_fl:
  assumes "rel_err x a (rnd_bound k)" and "n = Suc k"
  shows "rel_err (fl x) a (rnd_bound n)"
proof -
  define u where "u = unit_roundoff"
  define r where "r = rnd_bound k"
  have u: "0 \<le> u" unfolding u_def by (rule unit_roundoff_nonneg)
  from assms(1) have xa: "\<bar>x - a\<bar> \<le> r * \<bar>a\<bar>" by (simp add: rel_err_def r_def)
  then have "\<bar>x\<bar> \<le> \<bar>a\<bar> + r * \<bar>a\<bar>" by linarith
  then have "u * \<bar>x\<bar> \<le> u * (\<bar>a\<bar> + r * \<bar>a\<bar>)"
    using u by (rule mult_left_mono)
  moreover have "\<bar>fl x - x\<bar> \<le> u * \<bar>x\<bar>" unfolding u_def by (rule fl_error)
  ultimately have "\<bar>fl x - x\<bar> \<le> u * (\<bar>a\<bar> + r * \<bar>a\<bar>)" by linarith
  with xa have "\<bar>fl x - a\<bar> \<le> u * (\<bar>a\<bar> + r * \<bar>a\<bar>) + r * \<bar>a\<bar>" by linarith
  also have "\<dots> = (r + u * (1 + r)) * \<bar>a\<bar>" by (simp add: algebra_simps)
  also have "r + u * (1 + r) = rnd_bound n"
    by (simp add: r_def u_def assms(2) rnd_bound_Suc)
  finally show ?thesis by (simp add: rel_err_def)
qed

lemma rel_err_mult:
  assumes "rel_err x a (rnd_bound j)" and "rel_err y b (rnd_bound k)" and "n = j + k"
  shows "rel_err (x * y) (a * b) (rnd_bound n)"
proof -
  define r where "r = rnd_bound j"
  define s where "s = rnd_bound k"
  have r: "0 \<le> r" and s: "0 \<le> s"
    by (simp_all add: r_def s_def rnd_bound_nonneg)
  from assms have xa: "\<bar>x - a\<bar> \<le> r * \<bar>a\<bar>" and yb: "\<bar>y - b\<bar> \<le> s * \<bar>b\<bar>"
    by (simp_all add: rel_err_def r_def s_def)
  have split: "x * y - a * b = (x - a) * (y - b) + a * (y - b) + (x - a) * b"
    by (simp add: algebra_simps)
  have "\<bar>x * y - a * b\<bar> \<le> \<bar>(x - a) * (y - b)\<bar> + \<bar>a * (y - b)\<bar> + \<bar>(x - a) * b\<bar>"
    unfolding split by (intro order_trans [OF abs_triangle_ineq] add_mono order_refl)
  also have "\<dots> = \<bar>x - a\<bar> * \<bar>y - b\<bar> + \<bar>a\<bar> * \<bar>y - b\<bar> + \<bar>x - a\<bar> * \<bar>b\<bar>"
    by (simp only: abs_mult)
  also have "\<dots> \<le> (r * \<bar>a\<bar>) * (s * \<bar>b\<bar>) + \<bar>a\<bar> * (s * \<bar>b\<bar>) + (r * \<bar>a\<bar>) * \<bar>b\<bar>"
  proof (intro add_mono)
    show "\<bar>x - a\<bar> * \<bar>y - b\<bar> \<le> (r * \<bar>a\<bar>) * (s * \<bar>b\<bar>)"
      using xa yb by (intro mult_mono) (simp_all add: r)
    show "\<bar>a\<bar> * \<bar>y - b\<bar> \<le> \<bar>a\<bar> * (s * \<bar>b\<bar>)"
      using yb by (intro mult_left_mono) simp_all
    show "\<bar>x - a\<bar> * \<bar>b\<bar> \<le> (r * \<bar>a\<bar>) * \<bar>b\<bar>"
      using xa by (intro mult_right_mono) simp_all
  qed
  also have "\<dots> = ((1 + r) * (1 + s) - 1) * (\<bar>a\<bar> * \<bar>b\<bar>)"
    by (simp add: algebra_simps)
  also have "(1 + r) * (1 + s) - 1 = rnd_bound n"
    by (simp add: r_def s_def assms(3) rnd_bound_add)
  finally show ?thesis by (simp add: rel_err_def abs_mult)
qed

lemma rel_err_div:
  assumes "rel_err x a r"
  shows "rel_err (x / d) (a / d) r"
proof -
  have "\<bar>x / d - a / d\<bar> = \<bar>x - a\<bar> / \<bar>d\<bar>"
    by (simp add: diff_divide_distrib [symmetric])
  also have "\<dots> \<le> (r * \<bar>a\<bar>) / \<bar>d\<bar>"
    using assms by (intro divide_right_mono) (simp_all add: rel_err_def)
  finally show ?thesis by (simp add: rel_err_def)
qed

lemma rel_err_scale:
  assumes "rel_err x a r"
  shows "rel_err (c * x) (c * a) r"
proof -
  have "\<bar>c * x - c * a\<bar> = \<bar>c\<bar> * \<bar>x - a\<bar>"
    by (simp add: right_diff_distrib [symmetric] abs_mult)
  also have "\<dots> \<le> \<bar>c\<bar> * (r * \<bar>a\<bar>)"
    using assms by (intro mult_left_mono) (simp_all add: rel_err_def)
  finally show ?thesis by (simp add: rel_err_def abs_mult mult.left_commute)
qed

text \<open>
  One component of the acceleration with the drag force zero: six roundings lie between
  the mass-free value \<open>c * (gm / dd)\<close> and the double the code divides out.
\<close>

lemma acceleration_component:
  assumes "m \<noteq> 0"
  shows "rel_err (fl (fl (fl (c * fl (fl (gm * m) / dd))) * fl (1 / m))) (c * (gm / dd))
           (rnd_bound 6)"
proof -
  have e0: "rel_err x x (rnd_bound 0)" for x by (rule rel_err_exact)
  have s1: "rel_err (fl (gm * m)) (gm * m) (rnd_bound 1)"
    by (rule rel_err_fl [OF e0]) simp
  have s2: "rel_err (fl (fl (gm * m) / dd)) (gm * m / dd) (rnd_bound 2)"
    by (rule rel_err_fl [OF rel_err_div [OF s1]]) simp
  have s3: "rel_err (fl (c * fl (fl (gm * m) / dd))) (c * (gm * m / dd)) (rnd_bound 3)"
    by (rule rel_err_fl [OF rel_err_scale [OF s2]]) simp
  have s4: "rel_err (fl (fl (c * fl (fl (gm * m) / dd)))) (c * (gm * m / dd)) (rnd_bound 4)"
    by (rule rel_err_fl [OF s3]) simp
  have i1: "rel_err (fl (1 / m)) (1 / m) (rnd_bound 1)"
    by (rule rel_err_fl [OF e0]) simp
  have s5: "rel_err (fl (fl (c * fl (fl (gm * m) / dd))) * fl (1 / m))
      (c * (gm * m / dd) * (1 / m)) (rnd_bound 5)"
    by (rule rel_err_mult [OF s4 i1]) simp
  have s6: "rel_err (fl (fl (fl (c * fl (fl (gm * m) / dd))) * fl (1 / m)))
      (c * (gm * m / dd) * (1 / m)) (rnd_bound 6)"
    by (rule rel_err_fl [OF s5]) simp
  have "c * (gm * m / dd) * (1 / m) = c * (gm / dd)"
    using assms by simp
  with s6 show ?thesis by (simp only:)
qed

lemma dragForce64_inactive:
  assumes "\<not> (fl (length64 (position sat) - EARTH_RADIUS) < 500000 \<and> length64 (velocity sat) > 1)"
  shows "dragForce64 exp64 (sat\<lparr>mass := m\<rparr>) = Vector3 0 0 0"
  using assms by (auto simp add: dragForce64_def Let_def)

lemma acceleration64_within_rounding:
  assumes "m \<noteq> 0"
      and "\<not> (fl (length64 (position sat) - EARTH_RADIUS) < 500000 \<and> length64 (velocity sat) > 1)"
      and "c \<in> {vx, vy, vz}"
  shows "rel_err (c (acceleration64 exp64 (sat\<lparr>mass := m\<rparr>))) (c (massFreeAcceleration64 sat))
           (rnd_bound 6)"
proof -
  define fd where "fd = multiplyScalar64 (normalize64 (position sat)) (- 1)"
  define gm where "gm = fl (G64 * EARTH_MASS64)"
  define dd where "dd = fl (length64 (position sat) * length64 (position sat))"
  have a: "acceleration64 exp64 (sat\<lparr>mass := m\<rparr>) =
      Vector3 (fl (fl (fl (vx fd * fl (fl (gm * m) / dd))) * fl (1 / m)))
              (fl (fl (fl (vy fd * fl (fl (gm * m) / dd))) * fl (1 / m)))
              (fl (fl (fl (vz fd * fl (fl (gm * m) / dd))) * fl (1 / m)))"
    by (simp add: acceleration64_def dragForce64_inactive [OF assms(2)] gravityForce64_def
        Let_def add64_def divideScalar64_def multiplyScalar64_def fd_def gm_def dd_def)
  have b: "massFreeAcceleration64 sat =
      Vector3 (vx fd * (gm / dd)) (vy fd * (gm / dd)) (vz fd * (gm / dd))"
    by (simp add: massFreeAcceleration64_def multiplyScalar_def fd_def gm_def dd_def)
  from assms(3) consider "c = vx" | "c = vy" | "c = vz" by auto
  then show ?thesis
    by cases (simp_all only: a b Vector3.sel acceleration_component [OF assms(1)])
qed

text \<open>The two Euler updates of one component, given the acceleration's relative error.\<close>

lemma fl_sum3:
  assumes "\<bar>x - (a + b + c)\<bar> \<le> rnd_bound i * \<bar>a\<bar> + rnd_bound j * \<bar>b\<bar> + rnd_bound k * \<bar>c\<bar>"
  shows "\<bar>fl x - (a + b + c)\<bar>
           \<le> rnd_bound (Suc i) * \<bar>a\<bar> + rnd_bound (Suc j) * \<bar>b\<bar> + rnd_bound (Suc k) * \<bar>c\<bar>"
proof -
  define u where "u = unit_roundoff"
  define A where "A = rnd_bound i * \<bar>a\<bar>"
  define B where "B = rnd_bound j * \<bar>b\<bar>"
  define C where "C = rnd_bound k * \<bar>c\<bar>"
  have u: "0 \<le> u" unfolding u_def by (rule unit_roundoff_nonneg)
  from assms have x: "\<bar>x - (a + b + c)\<bar> \<le> A + B + C" by (simp add: A_def B_def C_def)
  then have "\<bar>x\<bar> \<le> (\<bar>a\<bar> + A) + (\<bar>b\<bar> + B) + (\<bar>c\<bar> + C)" by linarith
  then have "u * \<bar>x\<bar> \<le> u * ((\<bar>a\<bar> + A) + (\<bar>b\<bar> + B) + (\<bar>c\<bar> + C))"
    using u by (rule mult_left_mono)
  moreover have "\<bar>fl x - x\<bar> \<le> u * \<bar>x\<bar>" unfolding u_def by (rule fl_error)
  ultimately have "\<bar>fl x - (a + b + c)\<bar>
      \<le> (A + u * (\<bar>a\<bar> + A)) + (B + u * (\<bar>b\<bar> + B)) + (C + u * (\<bar>c\<bar> + C))"
    using x by (simp add: algebra_simps) linarith
  also have "A + u * (\<bar>a\<bar> + A) = rnd_bound (Suc i) * \<bar>a\<bar>"
    by (simp add: rnd_bound_Suc A_def u_def algebra_simps)
  also have "B + u * (\<bar>b\<bar> + B) = rnd_bound (Suc j) * \<bar>b\<bar>"
    by (simp add: rnd_bound_Suc B_def u_def algebra_simps)
  also have "C + u * (\<bar>c\<bar> + C) = rnd_bound (Suc k) * \<bar>c\<bar>"
    by (simp add: rnd_bound_Suc C_def u_def algebra_simps)
  finally show ?thesis .
qed

lemma fl_sum2:
  assumes "\<bar>x - (a + b)\<bar> \<le> rnd_bound i * \<bar>a\<bar> + rnd_bound j * \<bar>b\<bar>"
  shows "\<bar>fl x - (a + b)\<bar> \<le> rnd_bound (Suc i) * \<bar>a\<bar> + rnd_bound (Suc j) * \<bar>b\<bar>"
  using fl_sum3 [of x a b 0 i j 0] assms by simp

lemma scale_sum2:
  assumes "\<bar>x - (a + b)\<bar> \<le> r * \<bar>a\<bar> + s * \<bar>b :: real\<bar>"
  shows "\<bar>x * d - (a * d + b * d)\<bar> \<le> r * \<bar>a * d\<bar> + s * \<bar>b * d\<bar>"
proof -
  have "x * d - (a * d + b * d) = (x - (a + b)) * d"
    by (simp add: algebra_simps)
  then have "\<bar>x * d - (a * d + b * d)\<bar> = \<bar>x - (a + b)\<bar> * \<bar>d\<bar>"
    by (simp only: abs_mult)
  also have "\<dots> \<le> (r * \<bar>a\<bar> + s * \<bar>b\<bar>) * \<bar>d\<bar>"
    using assms by (rule mult_right_mono) simp
  finally show ?thesis by (simp add: algebra_simps abs_mult)
qed

lemma step_component:
  assumes "rel_err acc A (rnd_bound 6)"
  shows "\<bar>fl (v + fl (acc * dt)) - (v + A * dt)\<bar>
           \<le> rnd_bound 1 * \<bar>v\<bar> + rnd_bound 8 * \<bar>A * dt\<bar>"
    and "\<bar>fl (p + fl (fl (v + fl (acc * dt)) * dt)) - (p + v * dt + A * dt * dt)\<bar>
           \<le> rnd_bound 1 * \<bar>p\<bar> + rnd_bound 3 * \<bar>v * dt\<bar> + rnd_bound 10 * \<bar>A * dt * dt\<bar>"
proof -
  have "\<bar>acc * dt - A * dt\<bar> \<le> rnd_bound 6 * \<bar>A * dt\<bar>"
  proof -
    have "\<bar>acc * dt - A * dt\<bar> = \<bar>acc - A\<bar> * \<bar>dt\<bar>"
      by (simp add: left_diff_distrib [symmetric] abs_mult)
    also have "\<dots> \<le> (rnd_bound 6 * \<bar>A\<bar>) * \<bar>dt\<bar>"
      using assms by (intro mult_right_mono) (simp_all add: rel_err_def)
    finally show ?thesis by (simp add: abs_mult)
  qed
  then have "\<bar>acc * dt - (0 + A * dt)\<bar> \<le> rnd_bound 0 * \<bar>0\<bar> + rnd_bound 6 * \<bar>A * dt\<bar>"
    by simp
  from fl_sum2 [OF this]
  have t: "\<bar>fl (acc * dt) - A * dt\<bar> \<le> rnd_bound 7 * \<bar>A * dt\<bar>"
    by (simp add: eval_nat_numeral)
  then have "\<bar>(v + fl (acc * dt)) - (v + A * dt)\<bar> \<le> rnd_bound 0 * \<bar>v\<bar> + rnd_bound 7 * \<bar>A * dt\<bar>"
    by (simp add: rnd_bound_def)
  from fl_sum2 [OF this]
  show v: "\<bar>fl (v + fl (acc * dt)) - (v + A * dt)\<bar>
      \<le> rnd_bound 1 * \<bar>v\<bar> + rnd_bound 8 * \<bar>A * dt\<bar>"
    by (simp add: eval_nat_numeral)
  from fl_sum2 [OF scale_sum2 [OF v, of dt]]
  have "\<bar>fl (fl (v + fl (acc * dt)) * dt) - (v * dt + A * dt * dt)\<bar>
      \<le> rnd_bound 2 * \<bar>v * dt\<bar> + rnd_bound 9 * \<bar>A * dt * dt\<bar>"
    by (simp add: eval_nat_numeral)
  then have "\<bar>(p + fl (fl (v + fl (acc * dt)) * dt)) - (p + v * dt + A * dt * dt)\<bar>
      \<le> rnd_bound 0 * \<bar>p\<bar> + rnd_bound 2 * \<bar>v * dt\<bar> + rnd_bound 9 * \<bar>A * dt * dt\<bar>"
    by (simp add: rnd_bound_def)
  from fl_sum3 [OF this]
  show "\<bar>fl (p + fl (fl (v + fl (acc * dt)) * dt)) - (p + v * dt + A * dt * dt)\<bar>
      \<le> rnd_bound 1 * \<bar>p\<bar> + rnd_bound 3 * \<bar>v * dt\<bar> + rnd_bound 10 * \<bar>A * dt * dt\<bar>"
    by (simp add: eval_nat_numeral)
qed

lemma integrate64_component:
  assumes "c \<in> {vx, vy, vz}"
  shows "c (velocity (integrate64 exp64 dt sat))
           = fl (c (velocity sat) + fl (c (acceleration64 exp64 sat) * dt))"
    and "c (position (integrate64 exp64 dt sat))
           = fl (c (position sat)
                 + fl (fl (c (velocity sat) + fl (c (acceleration64 exp64 sat) * dt)) * dt))"
  using assms by (auto simp add: integrate64_def Let_def add64_def multiplyScalar64_def)

lemma near_same:
  assumes "\<bar>x - a\<bar> \<le> b" and "\<bar>y - a\<bar> \<le> (b::real)"
  shows "\<bar>x - y\<bar> \<le> 2 * b"
  using assms by linarith

text \<open>
  Claim C10, amended to what holds of the doubles. Take two body states that differ only
  in their positive masses, with the drag branch not taken, and any \<open>dt\<close>. In every
  coordinate, the acceleration the step computes for either mass is within the relative
  error \<open>(1 + u)\<^sup>6 - 1\<close> of one mass-free value, \<open>- normalize(position) * (G * M) / d\<^sup>2\<close>
  (\<open>u = 2\<^sup>-\<^sup>5\<^sup>3\<close>); the two velocities after the step differ by at most
  \<open>2 * (u * |v| + ((1 + u)\<^sup>8 - 1) * |a * dt|)\<close> and the two positions by at most
  \<open>2 * (u * |p| + ((1 + u)\<^sup>3 - 1) * |v * dt| + ((1 + u)\<^sup>1\<^sup>0 - 1) * |a * dt * dt|)\<close>,
  with \<open>p\<close>, \<open>v\<close> the coordinate of the position and velocity before the step and \<open>a\<close>
  that of the mass-free acceleration. The results agree up to rounding; they need not be
  the same doubles.
\<close>

theorem mass_independence_up_to_rounding:
  assumes "0 < m1" and "0 < m2"
      and "\<not> (fl (length64 (position sat) - EARTH_RADIUS) < 500000 \<and> length64 (velocity sat) > 1)"
      and "c \<in> {vx, vy, vz}"
  shows "rel_err (c (acceleration64 exp64 (sat\<lparr>mass := m1\<rparr>))) (c (massFreeAcceleration64 sat))
           (rnd_bound 6) \<and>
         rel_err (c (acceleration64 exp64 (sat\<lparr>mass := m2\<rparr>))) (c (massFreeAcceleration64 sat))
           (rnd_bound 6) \<and>
         \<bar>c (velocity (integrate64 exp64 dt (sat\<lparr>mass := m1\<rparr>)))
            - c (velocity (integrate64 exp64 dt (sat\<lparr>mass := m2\<rparr>)))\<bar>
           \<le> 2 * (rnd_bound 1 * \<bar>c (velocity sat)\<bar>
                   + rnd_bound 8 * \<bar>c (massFreeAcceleration64 sat) * dt\<bar>) \<and>
         \<bar>c (position (integrate64 exp64 dt (sat\<lparr>mass := m1\<rparr>)))
            - c (position (integrate64 exp64 dt (sat\<lparr>mass := m2\<rparr>)))\<bar>
           \<le> 2 * (rnd_bound 1 * \<bar>c (position sat)\<bar>
                   + rnd_bound 3 * \<bar>c (velocity sat) * dt\<bar>
                   + rnd_bound 10 * \<bar>c (massFreeAcceleration64 sat) * dt * dt\<bar>)"
proof -
  from assms(1,2) have nz: "m1 \<noteq> 0" "m2 \<noteq> 0" by simp_all
  note a1 = acceleration64_within_rounding [OF nz(1) assms(3,4), of exp64]
  note a2 = acceleration64_within_rounding [OF nz(2) assms(3,4), of exp64]
  have sel: "c (velocity (sat\<lparr>mass := m\<rparr>)) = c (velocity sat)"
    "c (position (sat\<lparr>mass := m\<rparr>)) = c (position sat)" for m
    by simp_all
  note v1 = step_component(1) [OF a1, of "c (velocity sat)" dt]
  note v2 = step_component(1) [OF a2, of "c (velocity sat)" dt]
  note p1 = step_component(2) [OF a1, of "c (position sat)" "c (velocity sat)" dt]
  note p2 = step_component(2) [OF a2, of "c (position sat)" "c (velocity sat)" dt]
  show ?thesis
    unfolding integrate64_component [OF assms(4)] sel
    using a1 a2 near_same [OF v1 v2] near_same [OF p1 p2] by blast
qed

theorem mass_independence_up_to_rounding_witness:
  "(0::real) < 100 \<and> (0::real) < 1000 \<and>
   \<not> (fl (length64 (position boundary_satellite) - EARTH_RADIUS) < 500000 \<and>
      length64 (velocity boundary_satellite) > 1) \<and>
   vx \<in> {vx, vy, vz} \<and>
   rel_err (vx (acceleration64 (\<lambda>x. fl (exp x)) (boundary_satellite\<lparr>mass := 100\<rparr>)))
     (vx (massFreeAcceleration64 boundary_satellite)) (rnd_bound 6) \<and>
   \<bar>vx (velocity (integrate64 (\<lambda>x. fl (exp x)) (fl (fl 0.016 * 1))
          (boundary_satellite\<lparr>mass := 100\<rparr>)))
      - vx (velocity (integrate64 (\<lambda>x. fl (exp x)) (fl (fl 0.016 * 1))
          (boundary_satellite\<lparr>mass := 1000\<rparr>)))\<bar>
     \<le> 2 * (rnd_bound 1 * \<bar>vx (velocity boundary_satellite)\<bar>
             + rnd_bound 8 * \<bar>vx (massFreeAcceleration64 boundary_satellite)
                               * fl (fl 0.016 * 1)\<bar>)"
proof -
  have h1: "(0::real) < 100" and h2: "(0::real) < 1000" by simp_all
  have h4: "vx \<in> {vx, vy, vz}" by simp
  from mass_independence_up_to_rounding [OF h1 h2 boundary_drag_off h4,
      of "\<lambda>x. fl (exp x)" "fl (fl 0.016 * 1)"] boundary_drag_off h4
  show ?thesis by simp
qed

end
